theory Spec2Isabelle
  imports Main
begin

section \<open>Texts\<close>

text \<open>
  Python \<open>str\<close> values are modelled as \<open>string\<close>. The source's literals are ASCII except
  for a handful of emoji, which are written here as their UTF-8 bytes. No function of the
  program measures or indexes these texts, so the byte view and the code point view agree
  on everything the program does with them (concatenation and comparison with the empty
  string).
\<close>

definition nl :: string where
  "nl = [CHR 0x0A]"

definition emoji_phone :: string where
  "emoji_phone = [CHR 0xF0, CHR 0x9F, CHR 0x93, CHR 0xB1]"

definition emoji_warning :: string where
  "emoji_warning = [CHR 0xE2, CHR 0x9A, CHR 0xA0, CHR 0xEF, CHR 0xB8, CHR 0x8F]"

definition emoji_check :: string where
  "emoji_check = [CHR 0xE2, CHR 0x9C, CHR 0x85]"

definition emoji_cross :: string where
  "emoji_cross = [CHR 0xE2, CHR 0x9D, CHR 0x8C]"

definition emoji_smile :: string where
  "emoji_smile = [CHR 0xF0, CHR 0x9F, CHR 0x98, CHR 0x8A]"

definition emoji_magnifier :: string where
  "emoji_magnifier = [CHR 0xF0, CHR 0x9F, CHR 0x94, CHR 0x8D]"

definition emoji_globe :: string where
  "emoji_globe = [CHR 0xF0, CHR 0x9F, CHR 0x8C, CHR 0x90]"

text \<open>\<^verbatim>\<open>sep.join(xs)\<close>: the elements of \<open>xs\<close> with \<open>sep\<close> between neighbours.\<close>

fun join :: "string \<Rightarrow> string list \<Rightarrow> string" where
  "join sep [] = []"
| "join sep [x] = x"
| "join sep (x # y # ys) = x @ sep @ join sep (y # ys)"

text \<open>
  \<^verbatim>\<open>s.split(c)\<close> for a one-character separator: the pieces between the occurrences of \<open>c\<close>;
  there is always at least one piece. \<open>split_acc\<close> carries the piece being read.
\<close>

fun split_acc :: "char \<Rightarrow> string \<Rightarrow> string \<Rightarrow> string list" where
  "split_acc c cur [] = [cur]"
| "split_acc c cur (x # xs) =
     (if x = c then cur # split_acc c [] xs else split_acc c (cur @ [x]) xs)"

definition split :: "char \<Rightarrow> string \<Rightarrow> string list" where
  "split c s = split_acc c [] s"

text \<open>
  \<^verbatim>\<open>s.split('/')[-1]\<close>, which is also what \<^verbatim>\<open>os.path.basename\<close> returns on a POSIX path:
  the text after the last slash.
\<close>

definition last_segment :: "string \<Rightarrow> string" where
  "last_segment s = last (split (CHR ''/'') s)"

section \<open>The generative backend's results\<close>

text \<open>
  A backend result holds ranked candidates; a candidate holds a content; a content holds
  ordered parts; a part carries a text.
\<close>

record part =
  part_text :: string

record content =
  parts :: "part list"

record candidate =
  cand_content :: content

record response =
  candidates :: "candidate list"

text \<open>
  The loop of \<open>extract_text_from_candidates\<close>:
  \<^verbatim>\<open>for part in ...parts: text_parts.append(part.text)\<close>.
\<close>

fun append_parts :: "string list \<Rightarrow> part list \<Rightarrow> string list" where
  "append_parts text_parts [] = text_parts"
| "append_parts text_parts (p # ps) = append_parts (text_parts @ [part_text p]) ps"

definition extract_text_from_candidates :: "response \<Rightarrow> string" where
  "extract_text_from_candidates r =
     (case candidates r of
        [] \<Rightarrow> ''No candidates returned.''
      | c # _ \<Rightarrow> join [] (append_parts [] (parts (cand_content c))))"

section \<open>Transport values\<close>

text \<open>
  What a handler reads from the incoming update: the sending user
  (\<^verbatim>\<open>update.effective_user\<close>: \<open>id\<close>, \<open>first_name\<close>, \<open>username\<close>), a shared contact
  (\<^verbatim>\<open>update.effective_message.contact\<close>, whose \<open>user_id\<close> is absent when the contact is not
  a platform user), and the attachments of a message (\<open>photo\<close>: the file identifiers of the
  available sizes, smallest first, empty when the message has no photo; \<open>document\<close>: the
  file identifier of the document, if any).
\<close>

record tg_user =
  uid :: int
  first_name :: string
  username :: "string option"

record contact =
  contact_user_id :: "int option"
  contact_phone_number :: string

record attachments =
  photo :: "string list"
  document :: "string option"

section \<open>The persistent store\<close>

text \<open>
  A document of the \<open>users\<close> collection. The program writes \<open>first_name\<close>, \<open>username\<close>,
  \<open>chat_id\<close>, \<open>status\<close>, \<open>registered_at\<close> and \<open>last_interaction\<close> on insert, and
  \<open>phone_number\<close>, \<open>status\<close> and \<open>phone_verified_at\<close> on verification. It reads \<open>status\<close>
  with a default, so a document may lack that field: \<open>None\<close>. Times are clock readings.
\<close>

record user_doc =
  doc_first_name :: string
  doc_username :: "string option"
  chat_id :: int
  status :: "string option"
  registered_at :: nat
  last_interaction :: nat
  phone_number :: "string option"
  phone_verified_at :: "nat option"

record chat_exchange =
  chat_user_id :: int
  chat_input :: string
  chat_response :: string
  chat_timestamp :: nat

record file_analysis =
  file_user_id :: int
  filename :: string
  file_type :: string
  analysis :: string
  file_timestamp :: nat

record search_record =
  search_user_id :: int
  search_query :: string
  search_result :: string
  search_timestamp :: nat

text \<open>
  An exception: the store's refusal of a second document with a \<open>chat_id\<close> already present
  (the unique index of line 26), a call with a keyword argument the callee does not have,
  or a failure of an external collaborator.
\<close>

datatype error = DuplicateKeyError | TypeError | Failure string

text \<open>\<^verbatim>\<open>users.find_one({"chat_id": k})\<close>: the first document with that \<open>chat_id\<close>.\<close>

fun find_one :: "int \<Rightarrow> user_doc list \<Rightarrow> user_doc option" where
  "find_one k [] = None"
| "find_one k (d # ds) = (if chat_id d = k then Some d else find_one k ds)"

text \<open>\<^verbatim>\<open>users.insert_one(d)\<close> under the unique index on \<open>chat_id\<close>.\<close>

definition insert_one :: "user_doc \<Rightarrow> user_doc list \<Rightarrow> error + user_doc list" where
  "insert_one d ds =
     (if list_ex (\<lambda>x. chat_id x = chat_id d) ds then Inl DuplicateKeyError
      else Inr (ds @ [d]))"

text \<open>
  \<^verbatim>\<open>users.update_one({"chat_id": k}, {"$set": ...})\<close>: the first matching document is
  rewritten by \<open>f\<close>; the second component is \<open>modified_count\<close>, which is 1 when a document
  matched and the rewriting changed it, and 0 otherwise.
\<close>

fun update_one :: "int \<Rightarrow> (user_doc \<Rightarrow> user_doc) \<Rightarrow> user_doc list \<Rightarrow> user_doc list \<times> nat" where
  "update_one k f [] = ([], 0)"
| "update_one k f (d # ds) =
     (if chat_id d = k then (f d # ds, if f d = d then 0 else 1)
      else (d # fst (update_one k f ds), snd (update_one k f ds)))"

text \<open>The \<open>$set\<close> of \<open>handle_contact\<close>.\<close>

definition set_verified :: "contact \<Rightarrow> nat \<Rightarrow> user_doc \<Rightarrow> user_doc" where
  "set_verified c now d =
     d\<lparr>phone_number := Some (contact_phone_number c),
       status := Some ''verified'',
       phone_verified_at := Some now\<rparr>"

section \<open>State, effects and outcomes\<close>

text \<open>
  The state is the four collections and the process-local \<open>user_cache\<close>. A cached value is
  whatever was assigned: a document, or \<open>None\<close> if a lookup that found nothing were stored.
\<close>

record bot_state =
  users :: "user_doc list"
  chat_history :: "chat_exchange list"
  files :: "file_analysis list"
  searches :: "search_record list"
  user_cache :: "int \<rightharpoonup> user_doc option"

text \<open>
  The external collaborators, as the answers they give while one update is handled: the
  text model and the vision model (\<open>generate_content\<close>), the transport's \<open>get_file\<close> and
  \<open>download_to_drive\<close>, reading the downloaded file, \<open>mimetypes.guess_type\<close>, the
  transport's answer to \<open>reply_text\<close> on a given text (\<open>Some\<close> of the exception when it
  refuses, as it does an empty text or one that is too long), and the exception, if any,
  with which the store answers an \<open>insert_one\<close> into \<open>chat_history\<close>, \<open>files\<close> or
  \<open>searches\<close>. Each call that can fail returns the exception.
\<close>

record env =
  nlp_model :: "string \<Rightarrow> error + response"
  vision_model :: "string \<Rightarrow> string \<Rightarrow> string \<Rightarrow> error + response"
  get_file :: "string \<Rightarrow> error + string"
  download_to_drive :: "string \<Rightarrow> error + string"
  read_file :: "string \<Rightarrow> error + string"
  guess_type :: "string \<Rightarrow> string option"
  reply_text :: "string \<Rightarrow> error option"
  insert_error :: "error option"

text \<open>
  What a handler does to the outside, in order: store calls, replies (\<open>reply_text\<close>, plain
  or with the contact-request button), backend and transport calls, log lines, the delay.
  An effect stands for the call made; a call that raises is listed too, as the last effect
  before the exception is handled or leaves the handler.

  In \<open>start\<close> and \<open>handle_contact\<close> no state change follows a reply, so a reply that raised
  there would leave the state as it is shown; their replies are taken as delivered. In the
  conversation handlers replies stand inside \<open>try\<close> blocks after store writes, and are the
  answers of \<open>reply_text\<close> above.
\<close>

datatype effect =
    FindOne int
  | InsertUser user_doc
  | UpdateOne int string nat
  | InsertChat chat_exchange
  | InsertFile file_analysis
  | InsertSearch search_record
  | ReplyText string
  | ReplyContactButton string string
  | GenerateContent string
  | GenerateVision string string string
  | GetFile string
  | DownloadToDrive string
  | ReadFile string
  | LogInfoContact contact
  | LogError string error
  | Sleep nat
  | CreateTask

text \<open>
  The outcome of running a piece of handler code: the state it leaves, the effects it
  had, and the exception that left it, if any.
\<close>

record outcome =
  after :: bot_state
  trace :: "effect list"
  raised :: "error option"

text \<open>
  \<^verbatim>\<open>try: body except Exception as e: handler\<close>. The effects and state changes of the body
  before the exception stay. The handler has effects of its own and may raise in turn.
\<close>

definition catch :: "outcome \<Rightarrow> (error \<Rightarrow> effect list \<times> error option) \<Rightarrow> outcome" where
  "catch body handler =
     (case raised body of
        None \<Rightarrow> body
      | Some x \<Rightarrow> body\<lparr>trace := trace body @ fst (handler x), raised := snd (handler x)\<rparr>)"

section \<open>Registration: start, request_contact, handle_contact\<close>

definition welcome_back :: "string \<Rightarrow> string" where
  "welcome_back name = ''Welcome back '' @ name @ ''! Your registration is complete.''"

definition please_complete :: string where
  "please_complete = ''Please complete registration by sharing your contact''"

text \<open>
  Modelled from the library: \<^verbatim>\<open>InlineKeyboardButton(text, request_contact=True)\<close>, line 81.
  In the versions of python-telegram-bot that the imports of lines 6 to 13 require (20 and
  later) the constructor of \<open>InlineKeyboardButton\<close> has no keyword \<open>request_contact\<close> (it
  belongs to \<open>KeyboardButton\<close>), so the call raises \<open>TypeError\<close>.
\<close>

definition inline_keyboard_button :: "string \<Rightarrow> bool \<Rightarrow> error + string" where
  "inline_keyboard_button label contact_requested = Inl TypeError"

text \<open>
  \<open>request_contact\<close>: build the keyboard, then reply with it. Its effects and the exception
  that leaves it, if any.
\<close>

definition request_contact :: "effect list \<times> error option" where
  "request_contact =
     (case inline_keyboard_button ''Verify Phone Number'' True of
        Inl x \<Rightarrow> ([], Some x)
      | Inr button \<Rightarrow>
          ([ReplyContactButton
              (emoji_phone @ '' Verification Required'' @ nl @
               ''To use this bot, please share your phone number for security:'')
              button],
           None))"

text \<open>The document that \<open>start\<close> inserts for a user it has no record of.\<close>

definition new_user_doc :: "tg_user \<Rightarrow> nat \<Rightarrow> nat \<Rightarrow> user_doc" where
  "new_user_doc user now1 now2 =
     \<lparr>doc_first_name = first_name user,
      doc_username = username user,
      chat_id = uid user,
      status = Some ''pending_contact'',
      registered_at = now1,
      last_interaction = now2,
      phone_number = None,
      phone_verified_at = None\<rparr>"

text \<open>
  \<open>start\<close>, with the two clock readings it takes. The cache is asked first; only on a miss
  is the store read.
\<close>

definition start :: "tg_user \<Rightarrow> nat \<Rightarrow> nat \<Rightarrow> bot_state \<Rightarrow> outcome" where
  "start user now1 now2 s =
     (case user_cache s (uid user) of
        Some _ \<Rightarrow>
          \<lparr>after = s, trace = [ReplyText (welcome_back (first_name user))], raised = None\<rparr>
      | None \<Rightarrow>
          (case find_one (uid user) (users s) of
             None \<Rightarrow>
               (case insert_one (new_user_doc user now1 now2) (users s) of
                  Inl e \<Rightarrow>
                    \<lparr>after = s,
                     trace = [FindOne (uid user), InsertUser (new_user_doc user now1 now2)],
                     raised = Some e\<rparr>
                | Inr us \<Rightarrow>
                    \<lparr>after = s\<lparr>users := us\<rparr>,
                     trace = [FindOne (uid user), InsertUser (new_user_doc user now1 now2)]
                             @ fst request_contact,
                     raised = snd request_contact\<rparr>)
           | Some existing_user \<Rightarrow>
               (if (case status existing_user of None \<Rightarrow> ''new'' | Some v \<Rightarrow> v)
                   = ''pending_contact''
                then
                  \<lparr>after = s,
                   trace = [FindOne (uid user), ReplyText please_complete],
                   raised = None\<rparr>
                else
                  \<lparr>after = s\<lparr>user_cache := (user_cache s)(uid user \<mapsto> Some existing_user)\<rparr>,
                   trace = [FindOne (uid user), ReplyText (welcome_back (first_name user))],
                   raised = None\<rparr>)))"

definition own_contact_warning :: string where
  "own_contact_warning = emoji_warning @ '' Please only share your own contact information.''"

definition verification_successful :: string where
  "verification_successful =
     emoji_check @ '' Phone verification successful!'' @ nl @
     ''You can now access all bot features.''"

definition verification_failed :: string where
  "verification_failed = emoji_cross @ '' Verification failed. Please try /start again''"

text \<open>
  \<open>handle_contact\<close>, with its clock reading. The comparison
  \<^verbatim>\<open>contact.user_id != update.effective_user.id\<close> is also true when the contact carries no
  user identity.
\<close>

definition handle_contact :: "tg_user \<Rightarrow> contact \<Rightarrow> nat \<Rightarrow> bot_state \<Rightarrow> outcome" where
  "handle_contact user c now s =
     (case contact_user_id c of
        None \<Rightarrow>
          \<lparr>after = s, trace = [LogInfoContact c, ReplyText own_contact_warning], raised = None\<rparr>
      | Some cid \<Rightarrow>
          (if cid \<noteq> uid user then
             \<lparr>after = s, trace = [LogInfoContact c, ReplyText own_contact_warning],
              raised = None\<rparr>
           else
             (let update_result = update_one cid (set_verified c now) (users s) in
              if snd update_result = 1 then
                \<lparr>after = s\<lparr>users := fst update_result,
                             user_cache := (user_cache s)(cid \<mapsto> find_one cid (fst update_result))\<rparr>,
                 trace = [LogInfoContact c, UpdateOne cid (contact_phone_number c) now,
                          FindOne cid, ReplyText verification_successful],
                 raised = None\<rparr>
              else
                \<lparr>after = s\<lparr>users := fst update_result\<rparr>,
                 trace = [LogInfoContact c, UpdateOne cid (contact_phone_number c) now,
                          ReplyText verification_failed],
                 raised = None\<rparr>)))"

section \<open>Conversation: messages, files, search\<close>

definition message_prompt :: "string \<Rightarrow> string" where
  "message_prompt user_message =
     ''Respond to this message with a helpful and friendly tone, and include relevant emojis: ''
     @ user_message"

definition follow_up :: string where
  "follow_up = ''Is there anything else I can help you with? '' @ emoji_smile"

definition sorry_text :: string where
  "sorry_text =
     emoji_cross @ '' Sorry, I couldn'' @ [CHR 0x27] @
     ''t process your request. Please try again.''"

text \<open>The record that \<open>generate_and_send_response\<close> appends to \<open>chat_history\<close>.\<close>

definition chat_entry :: "int \<Rightarrow> string \<Rightarrow> string \<Rightarrow> nat \<Rightarrow> chat_exchange" where
  "chat_entry user_id user_message gemini_response now =
     \<lparr>chat_user_id = user_id, chat_input = user_message,
      chat_response = gemini_response, chat_timestamp = now\<rparr>"

text \<open>
  The \<open>try\<close> block of \<open>generate_and_send_response\<close>: the backend call, the insert, the
  reply, the delay, the follow-up. Each of the four calls can raise; what was done before
  stays done.
\<close>

definition generate_body :: "env \<Rightarrow> int \<Rightarrow> string \<Rightarrow> nat \<Rightarrow> bot_state \<Rightarrow> outcome" where
  "generate_body e user_id user_message now s =
     (case nlp_model e (message_prompt user_message) of
        Inl x \<Rightarrow>
          \<lparr>after = s, trace = [GenerateContent (message_prompt user_message)], raised = Some x\<rparr>
      | Inr raw_response \<Rightarrow>
     (let gemini_response = extract_text_from_candidates raw_response;
          entry = chat_entry user_id user_message gemini_response now
      in
     (case insert_error e of
        Some x \<Rightarrow>
          \<lparr>after = s,
           trace = [GenerateContent (message_prompt user_message), InsertChat entry],
           raised = Some x\<rparr>
      | None \<Rightarrow>
     (case reply_text e gemini_response of
        Some x \<Rightarrow>
          \<lparr>after = s\<lparr>chat_history := chat_history s @ [entry]\<rparr>,
           trace = [GenerateContent (message_prompt user_message), InsertChat entry,
                    ReplyText gemini_response],
           raised = Some x\<rparr>
      | None \<Rightarrow>
          \<lparr>after = s\<lparr>chat_history := chat_history s @ [entry]\<rparr>,
           trace = [GenerateContent (message_prompt user_message), InsertChat entry,
                    ReplyText gemini_response, Sleep 5, ReplyText follow_up],
           raised = reply_text e follow_up\<rparr>))))"

definition generate_and_send_response ::
  "env \<Rightarrow> int \<Rightarrow> string \<Rightarrow> nat \<Rightarrow> bot_state \<Rightarrow> outcome" where
  "generate_and_send_response e user_id user_message now s =
     catch (generate_body e user_id user_message now s)
       (\<lambda>x. ([LogError ''Error generating response: '' x, ReplyText sorry_text],
             reply_text e sorry_text))"

text \<open>
  \<open>handle_message\<close> hands the work to a task of its own; the model runs that task to its
  end before the next update.
\<close>

definition handle_message :: "env \<Rightarrow> tg_user \<Rightarrow> string \<Rightarrow> nat \<Rightarrow> bot_state \<Rightarrow> outcome" where
  "handle_message e user message_text now s =
     (let r = generate_and_send_response e (uid user) message_text now s
      in r\<lparr>trace := CreateTask # trace r\<rparr>)"

definition unsupported_file_type :: string where
  "unsupported_file_type = emoji_cross @ '' Unsupported file type''"

definition failed_to_analyze :: string where
  "failed_to_analyze = emoji_cross @ '' Failed to analyze file''"

definition analysis_prompt :: string where
  "analysis_prompt = ''Analyze and describe this content in detail:''"

text \<open>\<^verbatim>\<open>mime_type or 'application/octet-stream'\<close> after \<open>guess_type\<close>.\<close>

definition mime_type_of :: "env \<Rightarrow> string \<Rightarrow> string" where
  "mime_type_of e file_path =
     (case guess_type e file_path of
        None \<Rightarrow> ''application/octet-stream''
      | Some m \<Rightarrow> if m = [] then ''application/octet-stream'' else m)"

text \<open>Which file \<open>handle_files\<close> takes: the largest photo size, else the document.\<close>

definition selected_file_id :: "attachments \<Rightarrow> string option" where
  "selected_file_id m = (if photo m \<noteq> [] then Some (last (photo m)) else document m)"

text \<open>The record that \<open>handle_files\<close> appends to \<open>files\<close>.\<close>

definition file_entry :: "env \<Rightarrow> tg_user \<Rightarrow> string \<Rightarrow> response \<Rightarrow> nat \<Rightarrow> file_analysis" where
  "file_entry e user file_path resp now =
     \<lparr>file_user_id = uid user,
      filename = last_segment file_path,
      file_type = last_segment (mime_type_of e file_path),
      analysis = extract_text_from_candidates resp,
      file_timestamp = now\<rparr>"

definition analysis_result :: "response \<Rightarrow> string" where
  "analysis_result resp =
     emoji_magnifier @ '' Analysis Result:'' @ nl @ extract_text_from_candidates resp"

text \<open>
  The \<open>try\<close> block of \<open>handle_files\<close>. The reply to an unsupported attachment and the
  \<open>return\<close> after it stand inside the block too.
\<close>

definition files_body :: "env \<Rightarrow> tg_user \<Rightarrow> attachments \<Rightarrow> nat \<Rightarrow> bot_state \<Rightarrow> outcome" where
  "files_body e user m now s =
     (case selected_file_id m of
        None \<Rightarrow>
          \<lparr>after = s, trace = [ReplyText unsupported_file_type],
           raised = reply_text e unsupported_file_type\<rparr>
      | Some file_id \<Rightarrow>
     (case get_file e file_id of
        Inl x \<Rightarrow> \<lparr>after = s, trace = [GetFile file_id], raised = Some x\<rparr>
      | Inr file \<Rightarrow>
     (case download_to_drive e file of
        Inl x \<Rightarrow> \<lparr>after = s, trace = [GetFile file_id, DownloadToDrive file], raised = Some x\<rparr>
      | Inr file_path \<Rightarrow>
     (case read_file e file_path of
        Inl x \<Rightarrow>
          \<lparr>after = s, trace = [GetFile file_id, DownloadToDrive file, ReadFile file_path],
           raised = Some x\<rparr>
      | Inr file_data \<Rightarrow>
     (case vision_model e analysis_prompt (mime_type_of e file_path) file_data of
        Inl x \<Rightarrow>
          \<lparr>after = s,
           trace = [GetFile file_id, DownloadToDrive file, ReadFile file_path,
                    GenerateVision analysis_prompt (mime_type_of e file_path) file_data],
           raised = Some x\<rparr>
      | Inr resp \<Rightarrow>
     (case insert_error e of
        Some x \<Rightarrow>
          \<lparr>after = s,
           trace = [GetFile file_id, DownloadToDrive file, ReadFile file_path,
                    GenerateVision analysis_prompt (mime_type_of e file_path) file_data,
                    InsertFile (file_entry e user file_path resp now)],
           raised = Some x\<rparr>
      | None \<Rightarrow>
          \<lparr>after = s\<lparr>files := files s @ [file_entry e user file_path resp now]\<rparr>,
           trace = [GetFile file_id, DownloadToDrive file, ReadFile file_path,
                    GenerateVision analysis_prompt (mime_type_of e file_path) file_data,
                    InsertFile (file_entry e user file_path resp now),
                    ReplyText (analysis_result resp)],
           raised = reply_text e (analysis_result resp)\<rparr>))))))"

definition handle_files :: "env \<Rightarrow> tg_user \<Rightarrow> attachments \<Rightarrow> nat \<Rightarrow> bot_state \<Rightarrow> outcome" where
  "handle_files e user m now s =
     catch (files_body e user m now s)
       (\<lambda>x. ([LogError ''File processing error: '' x, ReplyText failed_to_analyze],
             reply_text e failed_to_analyze))"

definition usage_text :: string where
  "usage_text = ''Usage: /websearch <your query here>''"

definition web_search_prompt :: "string \<Rightarrow> string" where
  "web_search_prompt query =
     ''Simulate a web search for: '' @ query @
     '' and provide a concise summary with top links.''"

definition search_entry :: "tg_user \<Rightarrow> string \<Rightarrow> string \<Rightarrow> nat \<Rightarrow> search_record" where
  "search_entry user query gemini_response now =
     \<lparr>search_user_id = uid user, search_query = query,
      search_result = gemini_response, search_timestamp = now\<rparr>"

text \<open>
  \<open>handle_websearch\<close> has no \<open>try\<close>: an exception of the backend, of the store or of a
  reply leaves the handler.
\<close>

definition handle_websearch ::
  "env \<Rightarrow> tg_user \<Rightarrow> string list \<Rightarrow> nat \<Rightarrow> bot_state \<Rightarrow> outcome" where
  "handle_websearch e user args now s =
     (let query = join '' '' args in
      if query = [] then
        \<lparr>after = s, trace = [ReplyText usage_text], raised = reply_text e usage_text\<rparr>
      else
        (case nlp_model e (web_search_prompt query) of
           Inl x \<Rightarrow>
             \<lparr>after = s, trace = [GenerateContent (web_search_prompt query)], raised = Some x\<rparr>
         | Inr raw_response \<Rightarrow>
        (let gemini_response = extract_text_from_candidates raw_response;
             entry = search_entry user query gemini_response now
         in
        (case insert_error e of
           Some x \<Rightarrow>
             \<lparr>after = s,
              trace = [GenerateContent (web_search_prompt query), InsertSearch entry],
              raised = Some x\<rparr>
         | None \<Rightarrow>
             \<lparr>after = s\<lparr>searches := searches s @ [entry]\<rparr>,
              trace = [GenerateContent (web_search_prompt query), InsertSearch entry,
                       ReplyText (emoji_globe @ '' Search Results:'' @ nl @ gemini_response)],
              raised = reply_text e
                         (emoji_globe @ '' Search Results:'' @ nl @ gemini_response)\<rparr>))))"

section \<open>Updates delivered one at a time\<close>

text \<open>
  The handlers registered in \<open>main\<close>, one constructor per handler, each with what the
  outside world supplies while it runs. \<open>run\<close> delivers a sequence of updates serially.
\<close>

datatype event =
    StartCommand tg_user nat nat
  | ContactShare tg_user contact nat
  | TextMessage env tg_user string nat
  | FileMessage env tg_user attachments nat
  | WebsearchCommand env tg_user "string list" nat

fun dispatch :: "event \<Rightarrow> bot_state \<Rightarrow> outcome" where
  "dispatch (StartCommand user now1 now2) s = start user now1 now2 s"
| "dispatch (ContactShare user c now) s = handle_contact user c now s"
| "dispatch (TextMessage e user message_text now) s = handle_message e user message_text now s"
| "dispatch (FileMessage e user m now) s = handle_files e user m now s"
| "dispatch (WebsearchCommand e user args now) s = handle_websearch e user args now s"

fun run :: "event list \<Rightarrow> bot_state \<Rightarrow> bot_state" where
  "run [] s = s"
| "run (ev # evs) s = run evs (after (dispatch ev s))"

section \<open>The arguments of a command\<close>

text \<open>
  Whitespace as Python's \<open>str.isspace\<close> sees it on ASCII: space, tab, line feed, vertical
  tab, form feed, carriage return and the four separators \<open>0x1C\<close> to \<open>0x1F\<close>.
\<close>

definition is_space :: "char \<Rightarrow> bool" where
  "is_space c \<longleftrightarrow>
     c = CHR '' '' \<or> c = CHR 0x09 \<or> c = CHR 0x0A \<or> c = CHR 0x0B \<or> c = CHR 0x0C \<or>
     c = CHR 0x0D \<or> c = CHR 0x1C \<or> c = CHR 0x1D \<or> c = CHR 0x1E \<or> c = CHR 0x1F"

text \<open>
  Modelled from the library: \<open>handle_websearch\<close> is registered behind \<open>CommandHandler\<close>
  (line 229), which sets \<^verbatim>\<open>context.args\<close> to \<^verbatim>\<open>message.text.split()[1:]\<close>: the words of the
  message text between runs of whitespace, without the command itself. \<open>split_ws_acc\<close>
  carries the word being read.
\<close>

fun split_ws_acc :: "string \<Rightarrow> string \<Rightarrow> string list" where
  "split_ws_acc cur [] = (if cur = [] then [] else [cur])"
| "split_ws_acc cur (c # cs) =
     (if is_space c then (if cur = [] then split_ws_acc [] cs else cur # split_ws_acc [] cs)
      else split_ws_acc (cur @ [c]) cs)"

definition split_ws :: "string \<Rightarrow> string list" where
  "split_ws s = split_ws_acc [] s"

definition command_args :: "string \<Rightarrow> string list" where
  "command_args message_text = tl (split_ws message_text)"

section \<open>Properties of states\<close>

text \<open>
  \<open>cache_coherent\<close>: every cached value is the stored record of its key, and that record is
  not pending. \<open>statuses_as_written\<close>: every stored record has one of the two statuses the
  program writes. \<open>cache_sound\<close>: every cached value is the stored record of its key, and
  that record is verified.
\<close>

definition cache_coherent :: "bot_state \<Rightarrow> bool" where
  "cache_coherent s \<longleftrightarrow>
     (\<forall>k v. user_cache s k = Some v \<longrightarrow>
        (\<exists>d. v = Some d \<and> find_one k (users s) = Some d \<and>
             status d \<noteq> Some ''pending_contact''))"

definition statuses_as_written :: "bot_state \<Rightarrow> bool" where
  "statuses_as_written s \<longleftrightarrow>
     (\<forall>d \<in> set (users s). status d = Some ''pending_contact'' \<or> status d = Some ''verified'')"

definition cache_sound :: "bot_state \<Rightarrow> bool" where
  "cache_sound s \<longleftrightarrow>
     (\<forall>k v. user_cache s k = Some v \<longrightarrow>
        (\<exists>d. v = Some d \<and> find_one k (users s) = Some d \<and> status d = Some ''verified''))"

text \<open>
  \<open>awaiting_contact k\<close>: the identity \<open>k\<close> has a pending record and no cache entry.
\<close>

definition awaiting_contact :: "int \<Rightarrow> bot_state \<Rightarrow> bool" where
  "awaiting_contact k s \<longleftrightarrow>
     user_cache s k = None \<and>
     (case find_one k (users s) of None \<Rightarrow> False | Some d \<Rightarrow> status d = Some ''pending_contact'')"

text \<open>
  The branches that assign to \<open>user_cache\<close>: in \<open>start\<close>, the branch taken on a cache miss
  when the stored record is verified; in \<open>handle_contact\<close>, the branch taken when the contact
  is the sender's own and one record was modified.
\<close>

fun cache_write_branch :: "event \<Rightarrow> bot_state \<Rightarrow> bool" where
  "cache_write_branch (StartCommand u t1 t2) s =
     (user_cache s (uid u) = None \<and>
      (case find_one (uid u) (users s) of
         None \<Rightarrow> False
       | Some d \<Rightarrow> status d = Some ''verified''))"
| "cache_write_branch (ContactShare u c now) s =
     (contact_user_id c = Some (uid u) \<and>
      snd (update_one (uid u) (set_verified c now) (users s)) = 1)"
| "cache_write_branch (TextMessage e u m now) s = False"
| "cache_write_branch (FileMessage e u m now) s = False"
| "cache_write_branch (WebsearchCommand e u args now) s = False"

text \<open>An update in which the user with identity \<open>k\<close> shares their own contact.\<close>

fun shares_own_contact :: "int \<Rightarrow> event \<Rightarrow> bool" where
  "shares_own_contact k (ContactShare u c now) = (uid u = k \<and> contact_user_id c = Some k)"
| "shares_own_contact k (StartCommand u t1 t2) = False"
| "shares_own_contact k (TextMessage e u m now) = False"
| "shares_own_contact k (FileMessage e u m now) = False"
| "shares_own_contact k (WebsearchCommand e u args now) = False"

definition only_whitespace :: "string \<Rightarrow> bool" where
  "only_whitespace s = list_all is_space s"

definition is_log_error :: "effect \<Rightarrow> bool" where
  "is_log_error x = (case x of LogError _ _ \<Rightarrow> True | _ \<Rightarrow> False)"

definition is_reply :: "effect \<Rightarrow> bool" where
  "is_reply x = (case x of ReplyText _ \<Rightarrow> True | ReplyContactButton _ _ \<Rightarrow> True | _ \<Rightarrow> False)"

section \<open>Concrete inputs\<close>

definition fresh_state :: bot_state where
  "fresh_state =
     \<lparr>users = [], chat_history = [], files = [], searches = [], user_cache = Map.empty\<rparr>"

definition alice :: tg_user where
  "alice = \<lparr>uid = 42, first_name = ''Alice'', username = Some ''alice''\<rparr>"

definition bob :: tg_user where
  "bob = \<lparr>uid = 7, first_name = ''Bob'', username = None\<rparr>"

definition alice_contact :: contact where
  "alice_contact = \<lparr>contact_user_id = Some 42, contact_phone_number = ''+1555''\<rparr>"

definition bob_contact :: contact where
  "bob_contact = \<lparr>contact_user_id = Some 7, contact_phone_number = ''+1777''\<rparr>"

definition two_candidates :: response where
  "two_candidates =
     \<lparr>candidates =
        [\<lparr>cand_content = \<lparr>parts = [\<lparr>part_text = ''ab''\<rparr>, \<lparr>part_text = ''cd''\<rparr>]\<rparr>\<rparr>,
         \<lparr>cand_content = \<lparr>parts = [\<lparr>part_text = ''ef''\<rparr>, \<lparr>part_text = ''gh''\<rparr>]\<rparr>\<rparr>]\<rparr>"

text \<open>A search command followed by whitespace only.\<close>

definition blank_search :: string where
  "blank_search = ''/websearch '' @ [CHR 0x09] @ ''  ''"

definition no_parts :: response where
  "no_parts = \<lparr>candidates = [\<lparr>cand_content = \<lparr>parts = []\<rparr>\<rparr>]\<rparr>"

definition long_text :: string where
  "long_text = replicate 4097 (CHR ''a'')"

definition long_answer :: response where
  "long_answer = \<lparr>candidates = [\<lparr>cand_content = \<lparr>parts = [\<lparr>part_text = long_text\<rparr>]\<rparr>\<rparr>]\<rparr>"

text \<open>A transport that refuses an empty text and a text of more than 4096 characters.\<close>

definition telegram_reply :: "string \<Rightarrow> error option" where
  "telegram_reply t =
     (if t = [] then Some (Failure ''Message text is empty'')
      else if 4096 < length t then Some (Failure ''Message is too long'')
      else None)"

text \<open>
  An outside world in which the models answer \<open>r\<close> and every other call succeeds, and one
  whose models fail.
\<close>

definition answering :: "response \<Rightarrow> env" where
  "answering r =
     \<lparr>nlp_model = (\<lambda>prompt. Inr r),
      vision_model = (\<lambda>prompt mime file_data. Inr r),
      get_file = (\<lambda>file_id. Inr file_id),
      download_to_drive = (\<lambda>file. Inr (''/tmp/'' @ file)),
      read_file = (\<lambda>file_path. Inr ''bytes''),
      guess_type = (\<lambda>file_path. None),
      reply_text = telegram_reply,
      insert_error = None\<rparr>"

definition failing_backend :: env where
  "failing_backend =
     \<lparr>nlp_model = (\<lambda>prompt. Inl (Failure ''quota'')),
      vision_model = (\<lambda>prompt mime file_data. Inl (Failure ''quota'')),
      get_file = (\<lambda>file_id. Inr file_id),
      download_to_drive = (\<lambda>file. Inr (''/tmp/'' @ file)),
      read_file = (\<lambda>file_path. Inr ''bytes''),
      guess_type = (\<lambda>file_path. None),
      reply_text = telegram_reply,
      insert_error = None\<rparr>"

text \<open>A store as another writer could have left it: a status \<open>new\<close>, a missing status.\<close>

definition legacy_alice :: user_doc where
  "legacy_alice =
     \<lparr>doc_first_name = ''Alice'', doc_username = None, chat_id = 42, status = Some ''new'',
      registered_at = 0, last_interaction = 0, phone_number = None, phone_verified_at = None\<rparr>"

definition legacy_bob :: user_doc where
  "legacy_bob =
     \<lparr>doc_first_name = ''Bob'', doc_username = None, chat_id = 7, status = None,
      registered_at = 0, last_interaction = 0, phone_number = None, phone_verified_at = None\<rparr>"

definition legacy_state :: bot_state where
  "legacy_state = fresh_state\<lparr>users := [legacy_alice, legacy_bob]\<rparr>"

section \<open>Facts about the text functions\<close>

lemma join_empty_sep: "join [] xs = concat xs"
  by (induction "[] :: string" xs rule: join.induct) simp_all

lemma append_parts_map: "append_parts acc ps = acc @ map part_text ps"
  by (induction ps arbitrary: acc) simp_all

lemma split_acc_nonempty: "split_acc c cur s \<noteq> []"
  by (induction s arbitrary: cur) simp_all

section \<open>Facts about the store and the registration handlers\<close>

lemma find_one_append:
  "find_one k (ds @ [d]) =
     (case find_one k ds of Some x \<Rightarrow> Some x | None \<Rightarrow> if chat_id d = k then Some d else None)"
  by (induction ds) simp_all

lemma find_one_None_iff: "find_one k ds = None \<longleftrightarrow> \<not> list_ex (\<lambda>x. chat_id x = k) ds"
  by (induction ds) simp_all

lemma find_one_Some: "find_one k ds = Some d \<Longrightarrow> chat_id d = k \<and> d \<in> set ds"
  by (induction ds) (auto split: if_splits)

lemma update_one_count:
  "snd (update_one k f ds) =
     (case find_one k ds of None \<Rightarrow> 0 | Some d \<Rightarrow> if f d = d then 0 else 1)"
  by (induction ds) simp_all

lemma update_one_unmodified: "snd (update_one k f ds) \<noteq> 1 \<Longrightarrow> fst (update_one k f ds) = ds"
  by (induction ds) (auto split: if_splits)

lemma find_one_update_one:
  "(\<And>d. chat_id (f d) = chat_id d) \<Longrightarrow>
   find_one j (fst (update_one k f ds)) =
     (if j = k then map_option f (find_one k ds) else find_one j ds)"
  by (induction ds) auto

lemma chat_ids_update_one:
  "(\<And>d. chat_id (f d) = chat_id d) \<Longrightarrow> map chat_id (fst (update_one k f ds)) = map chat_id ds"
  by (induction ds) auto

lemma set_update_one:
  "x \<in> set (fst (update_one k f ds)) \<Longrightarrow> x \<in> set ds \<or> (\<exists>d \<in> set ds. x = f d)"
  by (induction ds) (auto split: if_splits)

lemma chat_id_set_verified [simp]: "chat_id (set_verified c now d) = chat_id d"
  by (simp add: set_verified_def)

lemma status_set_verified [simp]: "status (set_verified c now d) = Some ''verified''"
  by (simp add: set_verified_def)

lemma catch_after [simp]: "after (catch b h) = after b"
  by (simp add: catch_def split: option.splits)

lemma generate_users [simp]:
  "users (after (generate_body e i m now s)) = users s"
  "user_cache (after (generate_body e i m now s)) = user_cache s"
  by (simp_all add: generate_body_def Let_def split: sum.splits option.splits)

lemma files_users [simp]:
  "users (after (files_body e u m now s)) = users s"
  "user_cache (after (files_body e u m now s)) = user_cache s"
  by (simp_all add: files_body_def Let_def split: sum.splits option.splits)

lemma websearch_users [simp]:
  "users (after (handle_websearch e u args now s)) = users s"
  "user_cache (after (handle_websearch e u args now s)) = user_cache s"
  by (simp_all add: handle_websearch_def Let_def split: sum.splits option.splits)

lemma message_users [simp]:
  "users (after (handle_message e u m now s)) = users s"
  "user_cache (after (handle_message e u m now s)) = user_cache s"
  by (simp_all add: handle_message_def generate_and_send_response_def Let_def)

lemma handle_files_users [simp]:
  "users (after (handle_files e u m now s)) = users s"
  "user_cache (after (handle_files e u m now s)) = user_cache s"
  by (simp_all add: handle_files_def)


lemma chat_id_new_user_doc [simp]: "chat_id (new_user_doc u t1 t2) = uid u"
  by (simp add: new_user_doc_def)

lemma status_new_user_doc [simp]: "status (new_user_doc u t1 t2) = Some ''pending_contact''"
  by (simp add: new_user_doc_def)

lemma start_cached:
  "user_cache s (uid u) = Some v \<Longrightarrow>
   start u t1 t2 s =
     \<lparr>after = s, trace = [ReplyText (welcome_back (first_name u))], raised = None\<rparr>"
  by (simp add: start_def)

lemma start_unknown:
  "user_cache s (uid u) = None \<Longrightarrow> find_one (uid u) (users s) = None \<Longrightarrow>
   start u t1 t2 s =
     \<lparr>after = s\<lparr>users := users s @ [new_user_doc u t1 t2]\<rparr>,
      trace = [FindOne (uid u), InsertUser (new_user_doc u t1 t2)],
      raised = Some TypeError\<rparr>"
proof -
  assume miss: "user_cache s (uid u) = None" and none: "find_one (uid u) (users s) = None"
  from none have "\<not> list_ex (\<lambda>x. chat_id x = uid u) (users s)"
    by (simp add: find_one_None_iff)
  with miss none show ?thesis
    by (simp add: start_def insert_one_def request_contact_def inline_keyboard_button_def)
qed

lemma start_pending:
  "user_cache s (uid u) = None \<Longrightarrow> find_one (uid u) (users s) = Some d \<Longrightarrow>
   status d = Some ''pending_contact'' \<Longrightarrow>
   start u t1 t2 s =
     \<lparr>after = s, trace = [FindOne (uid u), ReplyText please_complete], raised = None\<rparr>"
  by (simp add: start_def)

lemma start_complete:
  "user_cache s (uid u) = None \<Longrightarrow> find_one (uid u) (users s) = Some d \<Longrightarrow>
   status d \<noteq> Some ''pending_contact'' \<Longrightarrow>
   start u t1 t2 s =
     \<lparr>after = s\<lparr>user_cache := (user_cache s)(uid u \<mapsto> Some d)\<rparr>,
      trace = [FindOne (uid u), ReplyText (welcome_back (first_name u))],
      raised = None\<rparr>"
  by (cases "status d") (simp_all add: start_def)

lemma contact_mismatch:
  "contact_user_id c \<noteq> Some (uid u) \<Longrightarrow>
   handle_contact u c now s =
     \<lparr>after = s, trace = [LogInfoContact c, ReplyText own_contact_warning], raised = None\<rparr>"
  by (cases "contact_user_id c") (simp_all add: handle_contact_def)

lemma contact_modified:
  "contact_user_id c = Some (uid u) \<Longrightarrow>
   snd (update_one (uid u) (set_verified c now) (users s)) = 1 \<Longrightarrow>
   handle_contact u c now s =
     \<lparr>after = s\<lparr>users := fst (update_one (uid u) (set_verified c now) (users s)),
                 user_cache := (user_cache s)(uid u \<mapsto>
                    find_one (uid u) (fst (update_one (uid u) (set_verified c now) (users s))))\<rparr>,
      trace = [LogInfoContact c, UpdateOne (uid u) (contact_phone_number c) now,
               FindOne (uid u), ReplyText verification_successful],
      raised = None\<rparr>"
  by (simp add: handle_contact_def Let_def)

lemma contact_unmodified:
  "contact_user_id c = Some (uid u) \<Longrightarrow>
   snd (update_one (uid u) (set_verified c now) (users s)) \<noteq> 1 \<Longrightarrow>
   handle_contact u c now s =
     \<lparr>after = s,
      trace = [LogInfoContact c, UpdateOne (uid u) (contact_phone_number c) now,
               ReplyText verification_failed],
      raised = None\<rparr>"
  by (simp add: handle_contact_def Let_def update_one_unmodified)

lemma start_coherent:
  assumes "cache_coherent s"
  shows "cache_coherent (after (start u t1 t2 s))"
proof (cases "user_cache s (uid u)")
  case (Some v)
  with assms show ?thesis by (simp add: start_cached)
next
  case None
  show ?thesis
  proof (cases "find_one (uid u) (users s)")
    case no_record: None
    have "find_one k (users s @ [new_user_doc u t1 t2]) = find_one k (users s)"
      if "user_cache s k = Some v" for k v
    proof -
      from assms that obtain d where "find_one k (users s) = Some d"
        by (auto simp: cache_coherent_def)
      then show ?thesis by (simp add: find_one_append)
    qed
    with assms None no_record show ?thesis
      by (auto simp: start_unknown cache_coherent_def)
  next
    case (Some d)
    show ?thesis
    proof (cases "status d = Some ''pending_contact''")
      case True
      with assms None Some show ?thesis by (simp add: start_pending)
    next
      case False
      with assms None Some show ?thesis
        by (auto simp: start_complete cache_coherent_def)
    qed
  qed
qed

lemma contact_coherent:
  assumes "cache_coherent s"
  shows "cache_coherent (after (handle_contact u c now s))"
proof (cases "contact_user_id c = Some (uid u)")
  case False
  with assms show ?thesis by (simp add: contact_mismatch)
next
  case True
  show ?thesis
  proof (cases "snd (update_one (uid u) (set_verified c now) (users s)) = 1")
    case False
    with assms True show ?thesis by (simp add: contact_unmodified)
  next
    case True
    then obtain d where d: "find_one (uid u) (users s) = Some d"
      by (auto simp: update_one_count split: option.splits)
    from assms \<open>contact_user_id c = Some (uid u)\<close> True d show ?thesis
      by (auto simp: contact_modified cache_coherent_def find_one_update_one)
  qed
qed

lemma coherent_cong:
  "users s' = users s \<Longrightarrow> user_cache s' = user_cache s \<Longrightarrow>
   cache_coherent s \<Longrightarrow> cache_coherent s'"
  by (simp add: cache_coherent_def)

lemma dispatch_coherent: "cache_coherent s \<Longrightarrow> cache_coherent (after (dispatch ev s))"
  by (cases ev) (simp_all add: start_coherent contact_coherent coherent_cong)

lemma run_coherent: "cache_coherent s \<Longrightarrow> cache_coherent (run evs s)"
  by (induction evs arbitrary: s) (simp_all add: dispatch_coherent)

lemma empty_cache_coherent: "user_cache s = Map.empty \<Longrightarrow> cache_coherent s"
  by (simp add: cache_coherent_def)

lemma start_statuses:
  "statuses_as_written s \<Longrightarrow> statuses_as_written (after (start u t1 t2 s))"
  by (auto simp: start_def insert_one_def statuses_as_written_def
           split: option.splits if_splits)

lemma contact_statuses:
  "statuses_as_written s \<Longrightarrow> statuses_as_written (after (handle_contact u c now s))"
  by (auto simp: handle_contact_def Let_def statuses_as_written_def
           dest!: set_update_one split: option.splits if_splits)

lemma statuses_cong:
  "users s' = users s \<Longrightarrow> statuses_as_written s \<Longrightarrow> statuses_as_written s'"
  by (simp add: statuses_as_written_def)

lemma dispatch_statuses:
  "statuses_as_written s \<Longrightarrow> statuses_as_written (after (dispatch ev s))"
  by (cases ev) (simp_all add: start_statuses contact_statuses statuses_cong)

lemma run_statuses: "statuses_as_written s \<Longrightarrow> statuses_as_written (run evs s)"
  by (induction evs arbitrary: s) (simp_all add: dispatch_statuses)

lemma coherent_statuses_sound:
  assumes "cache_coherent s" and "statuses_as_written s"
  shows "cache_sound s"
  unfolding cache_sound_def
proof (intro allI impI)
  fix k v
  assume "user_cache s k = Some v"
  with assms(1) obtain d where d: "v = Some d" "find_one k (users s) = Some d"
      "status d \<noteq> Some ''pending_contact''"
    unfolding cache_coherent_def by blast
  from d(2) have "d \<in> set (users s)" by (simp add: find_one_Some)
  with assms(2) d(3) have "status d = Some ''verified''"
    unfolding statuses_as_written_def by blast
  with d show "\<exists>d. v = Some d \<and> find_one k (users s) = Some d \<and> status d = Some ''verified''"
    by blast
qed

section \<open>Response extraction\<close>

text \<open>
  Claim C5. A result with no candidates yields the fixed text \<open>No candidates returned.\<close>;
  a result with at least one candidate yields the texts of the parts of its first candidate,
  concatenated in order, whatever the later candidates hold.
\<close>

theorem extract_text_first_candidate_only:
  "(candidates r = [] \<longrightarrow> extract_text_from_candidates r = ''No candidates returned.'') \<and>
   (\<forall>c cs. candidates r = c # cs \<longrightarrow>
      extract_text_from_candidates r = concat (map part_text (parts (cand_content c))))"
  by (simp add: extract_text_from_candidates_def join_empty_sep append_parts_map)

theorem extract_text_first_candidate_only_witness:
  "extract_text_from_candidates \<lparr>candidates = []\<rparr> = ''No candidates returned.'' \<and>
   extract_text_from_candidates
     \<lparr>candidates =
        [\<lparr>cand_content = \<lparr>parts = [\<lparr>part_text = ''ab''\<rparr>, \<lparr>part_text = ''cd''\<rparr>]\<rparr>\<rparr>,
         \<lparr>cand_content = \<lparr>parts = [\<lparr>part_text = ''ef''\<rparr>, \<lparr>part_text = ''gh''\<rparr>]\<rparr>\<rparr>]\<rparr>
     = ''abcd''"
  using extract_text_first_candidate_only [of "\<lparr>candidates = []\<rparr>"]
    extract_text_first_candidate_only
      [of "\<lparr>candidates =
        [\<lparr>cand_content = \<lparr>parts = [\<lparr>part_text = ''ab''\<rparr>, \<lparr>part_text = ''cd''\<rparr>]\<rparr>\<rparr>,
         \<lparr>cand_content = \<lparr>parts = [\<lparr>part_text = ''ef''\<rparr>, \<lparr>part_text = ''gh''\<rparr>]\<rparr>\<rparr>]\<rparr>"]
  by simp

text \<open>
  Claim C9. When the candidate list is non-empty and its first candidate has no parts, the
  extracted text is the empty string, which is not the \<open>No candidates returned.\<close> text.
\<close>

theorem extract_text_no_parts_is_empty:
  "candidates r = c # cs \<Longrightarrow> parts (cand_content c) = [] \<Longrightarrow>
   extract_text_from_candidates r = [] \<and>
   extract_text_from_candidates r \<noteq> ''No candidates returned.''"
  by (simp add: extract_text_from_candidates_def)

theorem extract_text_no_parts_is_empty_witness:
  "extract_text_from_candidates
     \<lparr>candidates = [\<lparr>cand_content = \<lparr>parts = []\<rparr>\<rparr>,
                    \<lparr>cand_content = \<lparr>parts = [\<lparr>part_text = ''x''\<rparr>]\<rparr>\<rparr>]\<rparr> = [] \<and>
   extract_text_from_candidates
     \<lparr>candidates = [\<lparr>cand_content = \<lparr>parts = []\<rparr>\<rparr>,
                    \<lparr>cand_content = \<lparr>parts = [\<lparr>part_text = ''x''\<rparr>]\<rparr>\<rparr>]\<rparr>
     \<noteq> ''No candidates returned.''"
  using extract_text_no_parts_is_empty
    [of "\<lparr>candidates = [\<lparr>cand_content = \<lparr>parts = []\<rparr>\<rparr>,
                        \<lparr>cand_content = \<lparr>parts = [\<lparr>part_text = ''x''\<rparr>]\<rparr>\<rparr>]\<rparr>"
        "\<lparr>cand_content = \<lparr>parts = []\<rparr>\<rparr>"
        "[\<lparr>cand_content = \<lparr>parts = [\<lparr>part_text = ''x''\<rparr>]\<rparr>\<rparr>]"]
  by simp

section \<open>The cache and the store\<close>

lemma cache_change_branch:
  assumes "statuses_as_written s"
    and "user_cache (after (dispatch ev s)) \<noteq> user_cache s"
  shows "cache_write_branch ev s"
proof (cases ev)
  case (StartCommand u t1 t2)
  show ?thesis
  proof (cases "user_cache s (uid u)")
    case (Some v)
    with assms(2) StartCommand show ?thesis by (simp add: start_cached)
  next
    case None
    show ?thesis
    proof (cases "find_one (uid u) (users s)")
      case no_record: None
      with assms(2) StartCommand None show ?thesis by (simp add: start_unknown)
    next
      case (Some d)
      then have "d \<in> set (users s)" by (simp add: find_one_Some)
      with assms(1) have "status d = Some ''pending_contact'' \<or> status d = Some ''verified''"
        by (simp add: statuses_as_written_def)
      with assms(2) StartCommand None Some show ?thesis
        by (auto simp: start_pending)
    qed
  qed
next
  case (ContactShare u c now)
  show ?thesis
  proof (cases "contact_user_id c = Some (uid u)")
    case False
    with assms(2) ContactShare show ?thesis by (simp add: contact_mismatch)
  next
    case True
    with assms(2) ContactShare show ?thesis
      by (cases "snd (update_one (uid u) (set_verified c now) (users s)) = 1")
         (simp_all add: contact_unmodified)
  qed
qed (use assms(2) in simp_all)

text \<open>
  Claim C1. Start the process with an empty cache over a store whose records all carry a
  status the program writes (\<open>pending_contact\<close> or \<open>verified\<close>), and deliver any sequence of
  updates. In the state reached, every cached value is the stored record of its key and
  that record has status \<open>verified\<close>; and whichever update comes next, it changes the cache
  only in the branch of \<open>start\<close> that finds a verified record or in the branch of
  \<open>handle_contact\<close> that modified one record.
\<close>

theorem cache_soundness_invariant:
  assumes "user_cache s0 = Map.empty" and "statuses_as_written s0"
  shows "cache_sound (run evs s0) \<and>
         (\<forall>ev. user_cache (after (dispatch ev (run evs s0))) \<noteq> user_cache (run evs s0) \<longrightarrow>
               cache_write_branch ev (run evs s0))"
proof -
  from assms(1) have "cache_coherent (run evs s0)"
    by (simp add: empty_cache_coherent run_coherent)
  moreover from assms(2) have w: "statuses_as_written (run evs s0)"
    by (rule run_statuses)
  ultimately have "cache_sound (run evs s0)"
    by (rule coherent_statuses_sound)
  with w show ?thesis
    by (blast intro: cache_change_branch)
qed

theorem cache_soundness_invariant_witness:
  "user_cache fresh_state = Map.empty \<and> statuses_as_written fresh_state \<and>
   cache_sound (run [StartCommand alice 1 2, ContactShare alice alice_contact 3] fresh_state) \<and>
   user_cache (run [StartCommand alice 1 2, ContactShare alice alice_contact 3] fresh_state) 42
     \<noteq> None \<and>
   cache_write_branch (ContactShare alice alice_contact 3)
     (run [StartCommand alice 1 2] fresh_state)"
proof -
  have h1: "user_cache fresh_state = Map.empty"
    by (simp add: fresh_state_def)
  have h2: "statuses_as_written fresh_state"
    by (simp add: statuses_as_written_def fresh_state_def)
  have changed:
    "user_cache (after (dispatch (ContactShare alice alice_contact 3)
        (run [StartCommand alice 1 2] fresh_state)))
     \<noteq> user_cache (run [StartCommand alice 1 2] fresh_state)"
    by (simp add: fresh_state_def alice_def alice_contact_def start_def handle_contact_def
        insert_one_def new_user_doc_def set_verified_def Let_def)
  have cached:
    "user_cache (run [StartCommand alice 1 2, ContactShare alice alice_contact 3] fresh_state) 42
     \<noteq> None"
    by (simp add: fresh_state_def alice_def alice_contact_def start_def handle_contact_def
        insert_one_def new_user_doc_def set_verified_def Let_def)
  from cache_soundness_invariant [OF h1 h2,
      of "[StartCommand alice 1 2, ContactShare alice alice_contact 3]"]
    cache_soundness_invariant [OF h1 h2, of "[StartCommand alice 1 2]"]
    h1 h2 changed cached
  show ?thesis by blast
qed

text \<open>
  The condition on the stored statuses is needed: over a store that holds a record with
  status \<open>new\<close>, one entry event puts that record into the cache.
\<close>

lemma legacy_status_breaks_soundness:
  "user_cache legacy_state = Map.empty \<and> \<not> statuses_as_written legacy_state \<and>
   \<not> cache_sound (run [StartCommand alice 1 2] legacy_state)"
proof -
  have c: "user_cache (run [StartCommand alice 1 2] legacy_state) 42 = Some (Some legacy_alice)"
    by (simp add: legacy_state_def fresh_state_def legacy_alice_def legacy_bob_def alice_def
        start_def)
  have "\<not> cache_sound (run [StartCommand alice 1 2] legacy_state)"
  proof
    assume "cache_sound (run [StartCommand alice 1 2] legacy_state)"
    with c have "status legacy_alice = Some ''verified''"
      unfolding cache_sound_def by blast
    then show False by (simp add: legacy_alice_def)
  qed
  then show ?thesis
    by (simp add: legacy_state_def fresh_state_def statuses_as_written_def legacy_alice_def)
qed

text \<open>
  Claim C2. A contact whose user identity is not the sender's (or is absent) makes
  \<open>handle_contact\<close> log the contact, send the warning and return: the state is the one it
  started from, and no store call is made, whatever the sender's record says.
\<close>

theorem contact_mismatch_changes_nothing:
  "contact_user_id c \<noteq> Some (uid u) \<Longrightarrow>
   handle_contact u c now s =
     \<lparr>after = s, trace = [LogInfoContact c, ReplyText own_contact_warning], raised = None\<rparr>"
  by (cases "contact_user_id c") (simp_all add: handle_contact_def)

theorem contact_mismatch_changes_nothing_witness:
  "contact_user_id bob_contact \<noteq> Some (uid alice) \<and>
   handle_contact alice bob_contact 3 (run [StartCommand alice 1 2] fresh_state) =
     \<lparr>after = run [StartCommand alice 1 2] fresh_state,
      trace = [LogInfoContact bob_contact, ReplyText own_contact_warning], raised = None\<rparr> \<and>
   handle_contact alice \<lparr>contact_user_id = None, contact_phone_number = ''+1999''\<rparr> 6
       (run [StartCommand alice 1 2, ContactShare alice alice_contact 3] fresh_state) =
     \<lparr>after = run [StartCommand alice 1 2, ContactShare alice alice_contact 3] fresh_state,
      trace = [LogInfoContact \<lparr>contact_user_id = None, contact_phone_number = ''+1999''\<rparr>,
               ReplyText own_contact_warning],
      raised = None\<rparr>"
proof -
  have h1: "contact_user_id bob_contact \<noteq> Some (uid alice)"
    by (simp add: bob_contact_def alice_def)
  have h2: "contact_user_id \<lparr>contact_user_id = None, contact_phone_number = ''+1999''\<rparr>
            \<noteq> Some (uid alice)"
    by simp
  from contact_mismatch_changes_nothing [OF h1] contact_mismatch_changes_nothing [OF h2] h1
  show ?thesis by blast
qed

text \<open>
  Claim C10. In any state reached from an empty cache, an entry event from a user whose
  stored record has a status other than \<open>pending_contact\<close> (\<open>new\<close>, a missing status, or
  anything else) ends with that record in the cache and the personalized welcome sent; the
  store is left as it is. On a cache miss this is the branch that reads the store, writes
  the record into the cache and replies, with no test for \<open>verified\<close>.
\<close>

theorem start_completes_any_nonpending_record:
  assumes "user_cache s0 = Map.empty" and "s = run evs s0"
    and "find_one (uid u) (users s) = Some d" and "status d \<noteq> Some ''pending_contact''"
  shows "user_cache (after (start u t1 t2 s)) (uid u) = Some (Some d) \<and>
         users (after (start u t1 t2 s)) = users s \<and>
         last (trace (start u t1 t2 s)) = ReplyText (welcome_back (first_name u)) \<and>
         raised (start u t1 t2 s) = None \<and>
         (user_cache s (uid u) = None \<longrightarrow>
            start u t1 t2 s =
              \<lparr>after = s\<lparr>user_cache := (user_cache s)(uid u \<mapsto> Some d)\<rparr>,
               trace = [FindOne (uid u), ReplyText (welcome_back (first_name u))],
               raised = None\<rparr>)"
proof (cases "user_cache s (uid u)")
  case None
  with assms(3,4) show ?thesis by (simp add: start_complete)
next
  case (Some v)
  from assms(1,2) have "cache_coherent s"
    by (simp add: empty_cache_coherent run_coherent)
  with Some obtain d' where "v = Some d'" and "find_one (uid u) (users s) = Some d'"
    unfolding cache_coherent_def by blast
  with assms(3) have "v = Some d" by simp
  with Some show ?thesis by (simp add: start_cached)
qed

theorem start_completes_any_nonpending_record_witness:
  "user_cache legacy_state = Map.empty \<and>
   find_one (uid alice) (users legacy_state) = Some legacy_alice \<and>
   status legacy_alice = Some ''new'' \<and>
   start alice 1 2 legacy_state =
     \<lparr>after = legacy_state\<lparr>user_cache := (user_cache legacy_state)(uid alice \<mapsto> Some legacy_alice)\<rparr>,
      trace = [FindOne (uid alice), ReplyText (welcome_back (first_name alice))],
      raised = None\<rparr> \<and>
   find_one (uid bob) (users legacy_state) = Some legacy_bob \<and>
   status legacy_bob = None \<and>
   start bob 3 4 legacy_state =
     \<lparr>after = legacy_state\<lparr>user_cache := (user_cache legacy_state)(uid bob \<mapsto> Some legacy_bob)\<rparr>,
      trace = [FindOne (uid bob), ReplyText (welcome_back (first_name bob))],
      raised = None\<rparr>"
proof -
  have h1: "user_cache legacy_state = Map.empty"
    by (simp add: legacy_state_def fresh_state_def)
  have h2: "legacy_state = run [] legacy_state"
    by simp
  have a: "find_one (uid alice) (users legacy_state) = Some legacy_alice"
    by (simp add: legacy_state_def legacy_alice_def legacy_bob_def alice_def)
  have b: "find_one (uid bob) (users legacy_state) = Some legacy_bob"
    by (simp add: legacy_state_def legacy_alice_def legacy_bob_def bob_def)
  have sa: "status legacy_alice = Some ''new''" and sb: "status legacy_bob = None"
    by (simp_all add: legacy_alice_def legacy_bob_def)
  have na: "status legacy_alice \<noteq> Some ''pending_contact''"
    and nb: "status legacy_bob \<noteq> Some ''pending_contact''"
    by (simp_all add: legacy_alice_def legacy_bob_def)
  from start_completes_any_nonpending_record [OF h1 h2 a na, of 1 2]
    start_completes_any_nonpending_record [OF h1 h2 b nb, of 3 4]
    h1 a b sa sb
  show ?thesis by simp
qed

section \<open>Uniqueness of registration\<close>

lemma count_le_one_if_distinct:
  "distinct (map f xs) \<Longrightarrow> length (filter (\<lambda>d. f d = k) xs) \<le> 1"
proof (induction xs)
  case Nil
  then show ?case by simp
next
  case (Cons x xs)
  show ?case
  proof (cases "f x = k")
    case True
    from Cons.prems have "f x \<notin> f ` set xs" by simp
    with True have "\<forall>d \<in> set xs. f d \<noteq> k" by blast
    then have "filter (\<lambda>d. f d = k) xs = []"
      by (simp add: filter_empty_conv)
    with True show ?thesis by simp
  next
    case False
    with Cons show ?thesis by simp
  qed
qed

lemma find_one_None_chat_ids: "find_one k ds = None \<Longrightarrow> k \<notin> set (map chat_id ds)"
  by (induction ds) (auto split: if_splits)

lemma start_distinct:
  assumes "distinct (map chat_id (users s))"
  shows "distinct (map chat_id (users (after (start u t1 t2 s))))"
proof (cases "user_cache s (uid u)")
  case (Some v)
  with assms show ?thesis by (simp add: start_cached)
next
  case None
  show ?thesis
  proof (cases "find_one (uid u) (users s)")
    case no_record: None
    then have "uid u \<notin> set (map chat_id (users s))"
      by (rule find_one_None_chat_ids)
    with assms None no_record show ?thesis by (simp add: start_unknown)
  next
    case (Some d)
    with assms None show ?thesis
      by (cases "status d = Some ''pending_contact''")
         (simp_all add: start_pending start_complete)
  qed
qed

lemma contact_chat_ids:
  "map chat_id (users (after (handle_contact u c now s))) = map chat_id (users s)"
proof (cases "contact_user_id c = Some (uid u)")
  case False
  then show ?thesis by (simp add: contact_mismatch)
next
  case True
  then show ?thesis
    by (cases "snd (update_one (uid u) (set_verified c now) (users s)) = 1")
       (simp_all add: contact_modified contact_unmodified chat_ids_update_one)
qed

lemma dispatch_distinct:
  "distinct (map chat_id (users s)) \<Longrightarrow>
   distinct (map chat_id (users (after (dispatch ev s))))"
  by (cases ev) (simp_all add: start_distinct contact_chat_ids)

lemma run_distinct:
  "distinct (map chat_id (users s)) \<Longrightarrow> distinct (map chat_id (users (run evs s)))"
  by (induction evs arbitrary: s) (simp_all add: dispatch_distinct)

lemma start_awaiting:
  assumes "awaiting_contact k s"
  shows "awaiting_contact k (after (start u t1 t2 s))"
proof (cases "user_cache s (uid u)")
  case (Some v)
  with assms show ?thesis by (simp add: start_cached)
next
  case None
  show ?thesis
  proof (cases "find_one (uid u) (users s)")
    case no_record: None
    with assms None show ?thesis
      by (auto simp: start_unknown awaiting_contact_def find_one_append split: option.splits)
  next
    case (Some d)
    with assms None show ?thesis
      by (cases "status d = Some ''pending_contact''")
         (auto simp: start_pending start_complete awaiting_contact_def)
  qed
qed

lemma contact_awaiting:
  assumes "awaiting_contact k s" and "\<not> (uid u = k \<and> contact_user_id c = Some k)"
  shows "awaiting_contact k (after (handle_contact u c now s))"
proof (cases "contact_user_id c = Some (uid u)")
  case False
  with assms show ?thesis by (simp add: contact_mismatch)
next
  case True
  with assms(2) have ne: "uid u \<noteq> k" by auto
  show ?thesis
  proof (cases "snd (update_one (uid u) (set_verified c now) (users s)) = 1")
    case False
    with assms True show ?thesis by (simp add: contact_unmodified)
  next
    case modified: True
    with assms(1) True ne show ?thesis
      by (simp add: contact_modified awaiting_contact_def find_one_update_one)
  qed
qed

lemma dispatch_awaiting:
  assumes "awaiting_contact k s" and "\<not> shares_own_contact k ev"
  shows "awaiting_contact k (after (dispatch ev s))"
proof (cases ev)
  case (StartCommand u t1 t2)
  with assms(1) show ?thesis by (simp add: start_awaiting)
next
  case (ContactShare u c now)
  with assms show ?thesis by (simp add: contact_awaiting)
next
  case (TextMessage e u m now)
  with assms(1) show ?thesis by (simp add: awaiting_contact_def)
next
  case (FileMessage e u m now)
  with assms(1) show ?thesis by (simp add: awaiting_contact_def)
next
  case (WebsearchCommand e u args now)
  with assms(1) show ?thesis by (simp add: awaiting_contact_def)
qed

lemma run_awaiting:
  "awaiting_contact k s \<Longrightarrow> \<not> list_ex (shares_own_contact k) evs \<Longrightarrow>
   awaiting_contact k (run evs s)"
  by (induction evs arbitrary: s) (simp_all add: dispatch_awaiting)

lemma awaiting_start:
  assumes "awaiting_contact (uid u) s"
  shows "start u t1 t2 s =
     \<lparr>after = s, trace = [FindOne (uid u), ReplyText please_complete], raised = None\<rparr>"
proof -
  from assms obtain d where "user_cache s (uid u) = None"
      "find_one (uid u) (users s) = Some d" "status d = Some ''pending_contact''"
    by (auto simp: awaiting_contact_def split: option.splits)
  then show ?thesis by (rule start_pending)
qed

text \<open>
  Start the process with an empty cache over a store with at most one record per identity
  (what the unique index admits), and deliver any sequence of updates. In the state
  reached, no identity has more than one record. If the state has no record of a user, an
  entry event from that user makes one insert, of a record with status \<open>pending_contact\<close>,
  and then leaves \<open>start\<close> with the \<open>TypeError\<close> of \<open>request_contact\<close>: nothing is sent.
  After any further updates in which that user shares no contact of their own, another
  entry event from the user reads the store, sends the reminder to complete registration,
  and changes nothing.
\<close>

lemma one_record_per_identity:
  assumes "user_cache s0 = Map.empty" and "distinct (map chat_id (users s0))"
    and "s = run evs s0"
  shows "(\<forall>k. length (filter (\<lambda>d. chat_id d = k) (users s)) \<le> 1) \<and>
         (find_one (uid u) (users s) = None \<longrightarrow>
            start u t1 t2 s =
              \<lparr>after = s\<lparr>users := users s @ [new_user_doc u t1 t2]\<rparr>,
               trace = [FindOne (uid u), InsertUser (new_user_doc u t1 t2)],
               raised = Some TypeError\<rparr> \<and>
            status (new_user_doc u t1 t2) = Some ''pending_contact'' \<and>
            (\<forall>more. \<not> list_ex (shares_own_contact (uid u)) more \<longrightarrow>
               start u t3 t4 (run more (after (start u t1 t2 s))) =
                 \<lparr>after = run more (after (start u t1 t2 s)),
                  trace = [FindOne (uid u), ReplyText please_complete],
                  raised = None\<rparr>))"
proof (intro conjI allI impI)
  fix k
  from assms(2,3) have "distinct (map chat_id (users s))"
    by (simp add: run_distinct)
  then show "length (filter (\<lambda>d. chat_id d = k) (users s)) \<le> 1"
    by (rule count_le_one_if_distinct)
next
  assume none: "find_one (uid u) (users s) = None"
  from assms(1,3) have "cache_coherent s"
    by (simp add: empty_cache_coherent run_coherent)
  have miss: "user_cache s (uid u) = None"
  proof (rule ccontr)
    assume "user_cache s (uid u) \<noteq> None"
    then obtain v where "user_cache s (uid u) = Some v" by blast
    with \<open>cache_coherent s\<close> obtain d where "find_one (uid u) (users s) = Some d"
      unfolding cache_coherent_def by blast
    with none show False by simp
  qed
  from miss none show
    "start u t1 t2 s =
       \<lparr>after = s\<lparr>users := users s @ [new_user_doc u t1 t2]\<rparr>,
        trace = [FindOne (uid u), InsertUser (new_user_doc u t1 t2)],
        raised = Some TypeError\<rparr>"
    by (rule start_unknown)
  show "status (new_user_doc u t1 t2) = Some ''pending_contact''"
    by simp
  fix more
  assume quiet: "\<not> list_ex (shares_own_contact (uid u)) more"
  from miss none have "awaiting_contact (uid u) (after (start u t1 t2 s))"
    by (simp add: start_unknown awaiting_contact_def find_one_append)
  with quiet have "awaiting_contact (uid u) (run more (after (start u t1 t2 s)))"
    by (simp add: run_awaiting)
  then show "start u t3 t4 (run more (after (start u t1 t2 s))) =
       \<lparr>after = run more (after (start u t1 t2 s)),
        trace = [FindOne (uid u), ReplyText please_complete],
        raised = None\<rparr>"
    by (rule awaiting_start)
qed

text \<open>
  Claim C3, on the code. An entry event from a never-seen identity makes its one insert
  and then raises: building the keyboard of \<open>request_contact\<close> fails with \<open>TypeError\<close>
  before \<open>reply_text\<close> is reached, so no contact-request prompt is sent and the exception
  leaves \<open>start\<close>. The record stays, with status \<open>pending_contact\<close>.
\<close>

theorem start_unknown_identity_raises:
  "start alice 1 2 fresh_state =
     \<lparr>after = fresh_state\<lparr>users := [new_user_doc alice 1 2]\<rparr>,
      trace = [FindOne 42, InsertUser (new_user_doc alice 1 2)],
      raised = Some TypeError\<rparr> \<and>
   status (new_user_doc alice 1 2) = Some ''pending_contact'' \<and>
   \<not> list_ex is_reply (trace (start alice 1 2 fresh_state))"
  by (simp add: start_def fresh_state_def alice_def insert_one_def request_contact_def
      inline_keyboard_button_def is_reply_def)

section \<open>After verification\<close>

lemma dispatch_keeps_cached:
  assumes "user_cache s k \<noteq> None"
  shows "user_cache (after (dispatch ev s)) k \<noteq> None"
proof (cases ev)
  case (StartCommand u t1 t2)
  show ?thesis
  proof (cases "user_cache s (uid u)")
    case (Some v)
    with assms StartCommand show ?thesis by (simp add: start_cached)
  next
    case None
    with assms StartCommand show ?thesis
      by (auto simp: start_def insert_one_def split: option.splits)
  qed
next
  case (ContactShare u c now)
  with assms show ?thesis
    by (auto simp: handle_contact_def Let_def split: option.splits)
qed (use assms in simp_all)

lemma run_keeps_cached:
  "user_cache s k \<noteq> None \<Longrightarrow> user_cache (run evs s) k \<noteq> None"
  by (induction evs arbitrary: s) (simp_all add: dispatch_keeps_cached del: not_None_eq)

text \<open>
  Claim C4. When the sender shares their own contact and one record is modified, the
  sender's record afterwards has status \<open>verified\<close>, the contact's phone number and the
  time of verification; the cache holds for the sender what the store returns after the
  update; the success message is sent; and after any further updates, an entry event from
  that identity only sends the personalized welcome: no store call, no change of state.
\<close>

theorem verified_then_cached_welcome:
  assumes "contact_user_id c = Some (uid u)"
    and "snd (update_one (uid u) (set_verified c now) (users s)) = 1"
  shows "(\<exists>d. find_one (uid u) (users (after (handle_contact u c now s))) = Some d \<and>
              status d = Some ''verified'' \<and>
              phone_number d = Some (contact_phone_number c) \<and>
              phone_verified_at d = Some now \<and>
              user_cache (after (handle_contact u c now s)) (uid u) = Some (Some d)) \<and>
         trace (handle_contact u c now s) =
           [LogInfoContact c, UpdateOne (uid u) (contact_phone_number c) now,
            FindOne (uid u), ReplyText verification_successful] \<and>
         (\<forall>later u' t1 t2. uid u' = uid u \<longrightarrow>
            start u' t1 t2 (run later (after (handle_contact u c now s))) =
              \<lparr>after = run later (after (handle_contact u c now s)),
               trace = [ReplyText (welcome_back (first_name u'))],
               raised = None\<rparr>)"
proof (intro conjI allI impI)
  from assms(2) obtain d0 where d0: "find_one (uid u) (users s) = Some d0"
    by (auto simp: update_one_count split: option.splits)
  then have found: "find_one (uid u) (fst (update_one (uid u) (set_verified c now) (users s)))
      = Some (set_verified c now d0)"
    by (simp add: find_one_update_one)
  with assms show "\<exists>d. find_one (uid u) (users (after (handle_contact u c now s))) = Some d \<and>
              status d = Some ''verified'' \<and>
              phone_number d = Some (contact_phone_number c) \<and>
              phone_verified_at d = Some now \<and>
              user_cache (after (handle_contact u c now s)) (uid u) = Some (Some d)"
    by (simp add: contact_modified set_verified_def)
  from assms show "trace (handle_contact u c now s) =
           [LogInfoContact c, UpdateOne (uid u) (contact_phone_number c) now,
            FindOne (uid u), ReplyText verification_successful]"
    by (simp add: contact_modified)
  fix later and u' :: tg_user and t1 t2 :: nat
  assume same: "uid u' = uid u"
  from assms have "user_cache (after (handle_contact u c now s)) (uid u) \<noteq> None"
    by (simp add: contact_modified)
  then have "user_cache (run later (after (handle_contact u c now s))) (uid u') \<noteq> None"
    using same by (simp add: run_keeps_cached)
  then obtain v where "user_cache (run later (after (handle_contact u c now s))) (uid u') = Some v"
    by blast
  then show "start u' t1 t2 (run later (after (handle_contact u c now s))) =
              \<lparr>after = run later (after (handle_contact u c now s)),
               trace = [ReplyText (welcome_back (first_name u'))],
               raised = None\<rparr>"
    by (rule start_cached)
qed


theorem verified_then_cached_welcome_witness:
  "contact_user_id alice_contact = Some (uid alice) \<and>
   snd (update_one (uid alice) (set_verified alice_contact 3)
          (users (run [StartCommand alice 1 2] fresh_state))) = 1 \<and>
   status (the (find_one 42 (users (run [StartCommand alice 1 2] fresh_state))))
     = Some ''pending_contact'' \<and>
   status (the (find_one 42
       (users (after (handle_contact alice alice_contact 3
                        (run [StartCommand alice 1 2] fresh_state))))))
     = Some ''verified'' \<and>
   trace (handle_contact alice alice_contact 3 (run [StartCommand alice 1 2] fresh_state)) =
     [LogInfoContact alice_contact, UpdateOne (uid alice) (contact_phone_number alice_contact) 3,
      FindOne (uid alice), ReplyText verification_successful] \<and>
   start alice 8 9
       (run [ContactShare alice bob_contact 4,
             TextMessage (answering two_candidates) alice ''hi'' 5]
          (after (handle_contact alice alice_contact 3
                    (run [StartCommand alice 1 2] fresh_state)))) =
     \<lparr>after = run [ContactShare alice bob_contact 4,
                   TextMessage (answering two_candidates) alice ''hi'' 5]
                (after (handle_contact alice alice_contact 3
                          (run [StartCommand alice 1 2] fresh_state))),
      trace = [ReplyText (welcome_back (first_name alice))],
      raised = None\<rparr>"
proof -
  have h1: "contact_user_id alice_contact = Some (uid alice)"
    by (simp add: alice_contact_def alice_def)
  have h2: "snd (update_one (uid alice) (set_verified alice_contact 3)
          (users (run [StartCommand alice 1 2] fresh_state))) = 1"
    by (simp add: fresh_state_def alice_def alice_contact_def start_def
        insert_one_def new_user_doc_def set_verified_def)
  have before: "status (the (find_one 42 (users (run [StartCommand alice 1 2] fresh_state))))
     = Some ''pending_contact''"
    by (simp add: fresh_state_def alice_def start_def insert_one_def new_user_doc_def)
  from verified_then_cached_welcome [OF h1 h2]
  have "status (the (find_one 42
       (users (after (handle_contact alice alice_contact 3
                        (run [StartCommand alice 1 2] fresh_state))))))
     = Some ''verified''"
    by (auto simp: alice_def)
  with verified_then_cached_welcome [OF h1 h2] h1 h2 before
  show ?thesis by blast
qed

section \<open>The conversation handlers\<close>

lemma catch_raised:
  "raised b = Some x \<Longrightarrow> catch b h = b\<lparr>trace := trace b @ fst (h x), raised := snd (h x)\<rparr>"
  by (simp add: catch_def)

lemma join_space_empty: "join '' '' args = [] \<longleftrightarrow> args = [] \<or> args = [[]]"
  by (induction "'' ''" args rule: join.induct) simp_all

lemma websearch_empty_query:
  "join '' '' args = [] \<Longrightarrow>
   handle_websearch e u args now s =
     \<lparr>after = s, trace = [ReplyText usage_text], raised = reply_text e usage_text\<rparr>"
  by (simp add: handle_websearch_def)

text \<open>
  Claim C8. The three conversation handlers give the same outcome whatever the \<open>users\<close>
  collection and the cache hold: replacing both in the starting state changes neither the
  effects nor the exception nor what is written to the other collections, and the replaced
  \<open>users\<close> collection and cache come out as they went in.
\<close>

theorem conversation_ignores_verification:
  "handle_message e u m now (s\<lparr>users := us, user_cache := c\<rparr>) =
     (handle_message e u m now s)
       \<lparr>after := (after (handle_message e u m now s))\<lparr>users := us, user_cache := c\<rparr>\<rparr> \<and>
   handle_files e u a now (s\<lparr>users := us, user_cache := c\<rparr>) =
     (handle_files e u a now s)
       \<lparr>after := (after (handle_files e u a now s))\<lparr>users := us, user_cache := c\<rparr>\<rparr> \<and>
   handle_websearch e u args now (s\<lparr>users := us, user_cache := c\<rparr>) =
     (handle_websearch e u args now s)
       \<lparr>after := (after (handle_websearch e u args now s))\<lparr>users := us, user_cache := c\<rparr>\<rparr>"
proof (intro conjI)
  show "handle_message e u m now (s\<lparr>users := us, user_cache := c\<rparr>) =
     (handle_message e u m now s)
       \<lparr>after := (after (handle_message e u m now s))\<lparr>users := us, user_cache := c\<rparr>\<rparr>"
    by (simp add: handle_message_def generate_and_send_response_def generate_body_def
        catch_def Let_def split: sum.splits option.splits)
  show "handle_files e u a now (s\<lparr>users := us, user_cache := c\<rparr>) =
     (handle_files e u a now s)
       \<lparr>after := (after (handle_files e u a now s))\<lparr>users := us, user_cache := c\<rparr>\<rparr>"
    by (simp add: handle_files_def files_body_def catch_def Let_def
        split: sum.splits option.splits)
  show "handle_websearch e u args now (s\<lparr>users := us, user_cache := c\<rparr>) =
     (handle_websearch e u args now s)
       \<lparr>after := (after (handle_websearch e u args now s))\<lparr>users := us, user_cache := c\<rparr>\<rparr>"
    by (simp add: handle_websearch_def Let_def split: sum.splits option.splits)
qed

subsection \<open>Search with no words\<close>

lemma only_whitespace_append [simp]:
  "only_whitespace (xs @ ys) \<longleftrightarrow> only_whitespace xs \<and> only_whitespace ys"
  by (simp add: only_whitespace_def)

lemma token_not_whitespace:
  "a \<noteq> [] \<Longrightarrow> \<not> list_ex is_space a \<Longrightarrow> \<not> only_whitespace a"
  by (cases a) (simp_all add: only_whitespace_def)

lemma tokenised_query_whitespace:
  "(\<forall>a \<in> set args. a \<noteq> [] \<and> \<not> list_ex is_space a) \<Longrightarrow>
   only_whitespace (join '' '' args) \<longleftrightarrow> args = []"
proof (induction "'' ''" args rule: join.induct)
  case 1
  show ?case by (simp add: only_whitespace_def)
next
  case (2 x)
  then show ?case by (simp add: token_not_whitespace)
next
  case (3 x y ys)
  then have "\<not> only_whitespace x" by (simp add: token_not_whitespace)
  then show ?case by simp
qed

lemma split_ws_acc_tokens:
  "\<not> list_ex is_space cur \<Longrightarrow>
   \<forall>a \<in> set (split_ws_acc cur s). a \<noteq> [] \<and> \<not> list_ex is_space a"
proof (induction s arbitrary: cur)
  case Nil
  then show ?case by simp
next
  case (Cons c cs)
  have rest: "\<forall>a \<in> set (split_ws_acc [] cs). a \<noteq> [] \<and> \<not> list_ex is_space a"
    using Cons.IH [of "[]"] by simp
  show ?case
  proof (cases "is_space c")
    case True
    with rest Cons.prems show ?thesis by simp
  next
    case False
    with Cons.prems have "\<not> list_ex is_space (cur @ [c])" by simp
    from Cons.IH [OF this] False show ?thesis by simp
  qed
qed

text \<open>Every argument list the command handler builds consists of words.\<close>

lemma command_args_tokens:
  "a \<in> set (command_args message_text) \<Longrightarrow> a \<noteq> [] \<and> \<not> list_ex is_space a"
proof -
  assume "a \<in> set (command_args message_text)"
  then have "a \<in> set (split_ws_acc [] message_text)"
    by (cases "split_ws_acc [] message_text") (simp_all add: command_args_def split_ws_def)
  moreover have "\<forall>a \<in> set (split_ws_acc [] message_text). a \<noteq> [] \<and> \<not> list_ex is_space a"
    by (rule split_ws_acc_tokens) simp
  ultimately show ?thesis by blast
qed

text \<open>
  Claim C7. For the argument lists a command can come with (words: non-empty, free of
  whitespace), a joined argument string that is whitespace only, the empty string
  included, makes \<open>handle_websearch\<close> reply with the usage message and return: no backend
  call, no store write, the state unchanged.
\<close>

theorem whitespace_query_gets_usage:
  assumes "\<forall>a \<in> set args. a \<noteq> [] \<and> \<not> list_ex is_space a"
    and "only_whitespace (join '' '' args)"
  shows "handle_websearch e u args now s =
     \<lparr>after = s, trace = [ReplyText usage_text], raised = reply_text e usage_text\<rparr>"
proof -
  from assms have "args = []"
    by (simp add: tokenised_query_whitespace)
  then show ?thesis
    by (simp add: handle_websearch_def)
qed

theorem whitespace_query_gets_usage_witness:
  "command_args blank_search = [] \<and>
   only_whitespace (join '' '' (command_args blank_search)) \<and>
   handle_websearch failing_backend alice (command_args blank_search) 9 fresh_state =
     \<lparr>after = fresh_state, trace = [ReplyText ''Usage: /websearch <your query here>''],
      raised = None\<rparr>"
proof -
  have none: "command_args blank_search = []"
    by (simp add: blank_search_def command_args_def split_ws_def is_space_def)
  have words: "\<forall>a \<in> set (command_args blank_search). a \<noteq> [] \<and> \<not> list_ex is_space a"
    unfolding none by simp
  have blank: "only_whitespace (join '' '' (command_args blank_search))"
    unfolding none by (simp add: only_whitespace_def)
  have sent: "reply_text failing_backend usage_text = None"
    by (simp add: failing_backend_def telegram_reply_def usage_text_def)
  from whitespace_query_gets_usage [OF words blank, of failing_backend alice 9 fresh_state]
    none blank sent
  show ?thesis by (simp add: usage_text_def)
qed

text \<open>
  The condition on the arguments is what the command handler provides; \<open>handle_websearch\<close>
  itself tests the joined string for emptiness only. Called with the one argument \<open>'' ''\<close>,
  which no command comes with, it goes to the backend.
\<close>

lemma space_argument_reaches_backend:
  "only_whitespace (join '' '' ['' '']) \<and>
   trace (handle_websearch (answering two_candidates) alice ['' ''] 9 fresh_state) =
     [GenerateContent (web_search_prompt '' ''),
      InsertSearch (search_entry alice '' '' ''abcd'' 9),
      ReplyText (emoji_globe @ '' Search Results:'' @ nl @ ''abcd'')]"
  by (simp add: only_whitespace_def is_space_def handle_websearch_def answering_def
      two_candidates_def extract_text_from_candidates_def Let_def)

subsection \<open>Failures\<close>

lemma catch_raised_outcome:
  "raised b = Some x \<Longrightarrow>
   catch b h = \<lparr>after = after b, trace = trace b @ fst (h x), raised = snd (h x)\<rparr>"
  by (cases b) (simp add: catch_def)

lemma generate_body_raised:
  assumes "raised (generate_body e i m now s) = Some x"
  shows "after (generate_body e i m now s) = s \<or>
     (\<exists>raw t. nlp_model e (message_prompt m) = Inr raw \<and>
         after (generate_body e i m now s) =
           s\<lparr>chat_history :=
               chat_history s @ [chat_entry i m (extract_text_from_candidates raw) now]\<rparr> \<and>
         last (trace (generate_body e i m now s)) = ReplyText t \<and>
         reply_text e t = Some x)"
  using assms
  by (auto simp: generate_body_def Let_def split: sum.splits option.splits)

lemma files_body_raised:
  assumes "raised (files_body e u a now s) = Some x"
  shows "after (files_body e u a now s) = s \<or>
     (\<exists>file_path resp.
         after (files_body e u a now s) =
           s\<lparr>files := files s @ [file_entry e u file_path resp now]\<rparr> \<and>
         last (trace (files_body e u a now s)) = ReplyText (analysis_result resp) \<and>
         reply_text e (analysis_result resp) = Some x)"
  using assms
  by (auto simp: files_body_def split: sum.splits option.splits)

lemma length_long_text: "length long_text = 4097"
  by (simp add: long_text_def)

lemma extract_no_parts: "extract_text_from_candidates no_parts = []"
  by (simp add: extract_text_from_candidates_def no_parts_def)

lemma extract_long_answer: "extract_text_from_candidates long_answer = long_text"
  by (simp add: extract_text_from_candidates_def long_answer_def)

lemma reply_long_analysis:
  "telegram_reply (analysis_result long_answer) = Some (Failure ''Message is too long'')"
  by (simp add: telegram_reply_def analysis_result_def extract_long_answer length_long_text)

lemma replies_delivered:
  "telegram_reply sorry_text = None"
  "telegram_reply failed_to_analyze = None"
  "telegram_reply unsupported_file_type = None"
  "telegram_reply usage_text = None"
  by (simp_all add: telegram_reply_def sorry_text_def failed_to_analyze_def
      unsupported_file_type_def usage_text_def emoji_cross_def)

text \<open>
  Claim C6, as the code has it. When the \<open>try\<close> block of a text message or of a file
  raises, the handler logs the error and sends its fixed apology. Nothing has been written
  when the call that raised is the backend call (spelled out for both handlers), the fetch,
  download or read of the file, or the insert itself. When the call that raised is a reply
  sent after the insert (an empty or over-long text that the transport refuses), the
  record of the exchange or of the analysis stays written. An attachment that is neither
  photo nor document, and a search whose joined argument string is empty, get their
  specific message; nothing is written, and nothing is logged.
\<close>

theorem failure_paths_log_and_apologise:
  "(nlp_model e (message_prompt m) = Inl x \<longrightarrow>
      generate_and_send_response e i m now s =
        \<lparr>after = s,
         trace = [GenerateContent (message_prompt m),
                  LogError ''Error generating response: '' x, ReplyText sorry_text],
         raised = reply_text e sorry_text\<rparr>) \<and>
   (nlp_model e (message_prompt m) = Inr raw \<and> insert_error e = None \<and>
    reply_text e (extract_text_from_candidates raw) = Some x \<longrightarrow>
      generate_and_send_response e i m now s =
        \<lparr>after = s\<lparr>chat_history :=
                    chat_history s @ [chat_entry i m (extract_text_from_candidates raw) now]\<rparr>,
         trace = [GenerateContent (message_prompt m),
                  InsertChat (chat_entry i m (extract_text_from_candidates raw) now),
                  ReplyText (extract_text_from_candidates raw),
                  LogError ''Error generating response: '' x, ReplyText sorry_text],
         raised = reply_text e sorry_text\<rparr>) \<and>
   (raised (generate_body e i m now s) = Some x \<longrightarrow>
      generate_and_send_response e i m now s =
        \<lparr>after = after (generate_body e i m now s),
         trace = trace (generate_body e i m now s) @
                 [LogError ''Error generating response: '' x, ReplyText sorry_text],
         raised = reply_text e sorry_text\<rparr> \<and>
      (after (generate_body e i m now s) = s \<or>
       (\<exists>raw t. nlp_model e (message_prompt m) = Inr raw \<and>
          after (generate_body e i m now s) =
            s\<lparr>chat_history :=
                chat_history s @ [chat_entry i m (extract_text_from_candidates raw) now]\<rparr> \<and>
          last (trace (generate_body e i m now s)) = ReplyText t \<and>
          reply_text e t = Some x))) \<and>
   handle_message e u m now s =
     (generate_and_send_response e (uid u) m now s)
       \<lparr>trace := CreateTask # trace (generate_and_send_response e (uid u) m now s)\<rparr> \<and>
   (selected_file_id a = Some file_id \<and> get_file e file_id = Inr tg_file \<and>
    download_to_drive e tg_file = Inr file_path \<and> read_file e file_path = Inr file_data \<and>
    vision_model e analysis_prompt (mime_type_of e file_path) file_data = Inl x \<longrightarrow>
      handle_files e u a now s =
        \<lparr>after = s,
         trace = [GetFile file_id, DownloadToDrive tg_file, ReadFile file_path,
                  GenerateVision analysis_prompt (mime_type_of e file_path) file_data,
                  LogError ''File processing error: '' x, ReplyText failed_to_analyze],
         raised = reply_text e failed_to_analyze\<rparr>) \<and>
   (selected_file_id a = Some file_id \<and> get_file e file_id = Inr tg_file \<and>
    download_to_drive e tg_file = Inr file_path \<and> read_file e file_path = Inr file_data \<and>
    vision_model e analysis_prompt (mime_type_of e file_path) file_data = Inr resp \<and>
    insert_error e = None \<and> reply_text e (analysis_result resp) = Some x \<longrightarrow>
      handle_files e u a now s =
        \<lparr>after = s\<lparr>files := files s @ [file_entry e u file_path resp now]\<rparr>,
         trace = [GetFile file_id, DownloadToDrive tg_file, ReadFile file_path,
                  GenerateVision analysis_prompt (mime_type_of e file_path) file_data,
                  InsertFile (file_entry e u file_path resp now),
                  ReplyText (analysis_result resp),
                  LogError ''File processing error: '' x, ReplyText failed_to_analyze],
         raised = reply_text e failed_to_analyze\<rparr>) \<and>
   (raised (files_body e u a now s) = Some x \<longrightarrow>
      handle_files e u a now s =
        \<lparr>after = after (files_body e u a now s),
         trace = trace (files_body e u a now s) @
                 [LogError ''File processing error: '' x, ReplyText failed_to_analyze],
         raised = reply_text e failed_to_analyze\<rparr> \<and>
      (after (files_body e u a now s) = s \<or>
       (\<exists>file_path resp.
          after (files_body e u a now s) =
            s\<lparr>files := files s @ [file_entry e u file_path resp now]\<rparr> \<and>
          last (trace (files_body e u a now s)) = ReplyText (analysis_result resp) \<and>
          reply_text e (analysis_result resp) = Some x))) \<and>
   (selected_file_id a = None \<and> reply_text e unsupported_file_type = None \<longrightarrow>
      handle_files e u a now s =
        \<lparr>after = s, trace = [ReplyText unsupported_file_type], raised = None\<rparr>) \<and>
   (join '' '' args = [] \<longrightarrow>
      handle_websearch e u args now s =
        \<lparr>after = s, trace = [ReplyText usage_text], raised = reply_text e usage_text\<rparr>)"
proof (intro conjI impI)
  assume "nlp_model e (message_prompt m) = Inl x"
  then show "generate_and_send_response e i m now s =
        \<lparr>after = s,
         trace = [GenerateContent (message_prompt m),
                  LogError ''Error generating response: '' x, ReplyText sorry_text],
         raised = reply_text e sorry_text\<rparr>"
    by (simp add: generate_and_send_response_def generate_body_def catch_def)
next
  assume "nlp_model e (message_prompt m) = Inr raw \<and> insert_error e = None \<and>
    reply_text e (extract_text_from_candidates raw) = Some x"
  then show "generate_and_send_response e i m now s =
        \<lparr>after = s\<lparr>chat_history :=
                    chat_history s @ [chat_entry i m (extract_text_from_candidates raw) now]\<rparr>,
         trace = [GenerateContent (message_prompt m),
                  InsertChat (chat_entry i m (extract_text_from_candidates raw) now),
                  ReplyText (extract_text_from_candidates raw),
                  LogError ''Error generating response: '' x, ReplyText sorry_text],
         raised = reply_text e sorry_text\<rparr>"
    by (simp add: generate_and_send_response_def generate_body_def catch_def Let_def)
next
  assume r: "raised (generate_body e i m now s) = Some x"
  then show "generate_and_send_response e i m now s =
        \<lparr>after = after (generate_body e i m now s),
         trace = trace (generate_body e i m now s) @
                 [LogError ''Error generating response: '' x, ReplyText sorry_text],
         raised = reply_text e sorry_text\<rparr>"
    by (simp add: generate_and_send_response_def catch_raised_outcome)
  from r show "after (generate_body e i m now s) = s \<or>
       (\<exists>raw t. nlp_model e (message_prompt m) = Inr raw \<and>
          after (generate_body e i m now s) =
            s\<lparr>chat_history :=
                chat_history s @ [chat_entry i m (extract_text_from_candidates raw) now]\<rparr> \<and>
          last (trace (generate_body e i m now s)) = ReplyText t \<and>
          reply_text e t = Some x)"
    by (rule generate_body_raised)
next
  show "handle_message e u m now s =
     (generate_and_send_response e (uid u) m now s)
       \<lparr>trace := CreateTask # trace (generate_and_send_response e (uid u) m now s)\<rparr>"
    by (simp add: handle_message_def Let_def)
next
  assume "selected_file_id a = Some file_id \<and> get_file e file_id = Inr tg_file \<and>
    download_to_drive e tg_file = Inr file_path \<and> read_file e file_path = Inr file_data \<and>
    vision_model e analysis_prompt (mime_type_of e file_path) file_data = Inl x"
  then show "handle_files e u a now s =
        \<lparr>after = s,
         trace = [GetFile file_id, DownloadToDrive tg_file, ReadFile file_path,
                  GenerateVision analysis_prompt (mime_type_of e file_path) file_data,
                  LogError ''File processing error: '' x, ReplyText failed_to_analyze],
         raised = reply_text e failed_to_analyze\<rparr>"
    by (simp add: handle_files_def files_body_def catch_def)
next
  assume "selected_file_id a = Some file_id \<and> get_file e file_id = Inr tg_file \<and>
    download_to_drive e tg_file = Inr file_path \<and> read_file e file_path = Inr file_data \<and>
    vision_model e analysis_prompt (mime_type_of e file_path) file_data = Inr resp \<and>
    insert_error e = None \<and> reply_text e (analysis_result resp) = Some x"
  then show "handle_files e u a now s =
        \<lparr>after = s\<lparr>files := files s @ [file_entry e u file_path resp now]\<rparr>,
         trace = [GetFile file_id, DownloadToDrive tg_file, ReadFile file_path,
                  GenerateVision analysis_prompt (mime_type_of e file_path) file_data,
                  InsertFile (file_entry e u file_path resp now),
                  ReplyText (analysis_result resp),
                  LogError ''File processing error: '' x, ReplyText failed_to_analyze],
         raised = reply_text e failed_to_analyze\<rparr>"
    by (simp add: handle_files_def files_body_def catch_def)
next
  assume r: "raised (files_body e u a now s) = Some x"
  then show "handle_files e u a now s =
        \<lparr>after = after (files_body e u a now s),
         trace = trace (files_body e u a now s) @
                 [LogError ''File processing error: '' x, ReplyText failed_to_analyze],
         raised = reply_text e failed_to_analyze\<rparr>"
    by (simp add: handle_files_def catch_raised_outcome)
  from r show "after (files_body e u a now s) = s \<or>
       (\<exists>file_path resp.
          after (files_body e u a now s) =
            s\<lparr>files := files s @ [file_entry e u file_path resp now]\<rparr> \<and>
          last (trace (files_body e u a now s)) = ReplyText (analysis_result resp) \<and>
          reply_text e (analysis_result resp) = Some x)"
    by (rule files_body_raised)
next
  assume "selected_file_id a = None \<and> reply_text e unsupported_file_type = None"
  then show "handle_files e u a now s =
        \<lparr>after = s, trace = [ReplyText unsupported_file_type], raised = None\<rparr>"
    by (simp add: handle_files_def files_body_def catch_def)
next
  assume "join '' '' args = []"
  then show "handle_websearch e u args now s =
        \<lparr>after = s, trace = [ReplyText usage_text], raised = reply_text e usage_text\<rparr>"
    by (rule websearch_empty_query)
qed

theorem failure_paths_log_and_apologise_witness:
  "nlp_model failing_backend (message_prompt ''hi'') = Inl (Failure ''quota'') \<and>
   generate_and_send_response failing_backend 42 ''hi'' 9 fresh_state =
     \<lparr>after = fresh_state,
      trace = [GenerateContent (message_prompt ''hi''),
               LogError ''Error generating response: '' (Failure ''quota''),
               ReplyText sorry_text],
      raised = None\<rparr> \<and>
   nlp_model (answering no_parts) (message_prompt ''hi'') = Inr no_parts \<and>
   extract_text_from_candidates no_parts = [] \<and>
   reply_text (answering no_parts) [] = Some (Failure ''Message text is empty'') \<and>
   raised (generate_body (answering no_parts) 42 ''hi'' 9 fresh_state)
     = Some (Failure ''Message text is empty'') \<and>
   generate_and_send_response (answering no_parts) 42 ''hi'' 9 fresh_state =
     \<lparr>after = fresh_state\<lparr>chat_history := [chat_entry 42 ''hi'' [] 9]\<rparr>,
      trace = [GenerateContent (message_prompt ''hi''),
               InsertChat (chat_entry 42 ''hi'' [] 9),
               ReplyText [],
               LogError ''Error generating response: '' (Failure ''Message text is empty''),
               ReplyText sorry_text],
      raised = None\<rparr> \<and>
   handle_files failing_backend alice \<lparr>photo = [''small'', ''big''], document = None\<rparr>
       9 fresh_state =
     \<lparr>after = fresh_state,
      trace = [GetFile ''big'', DownloadToDrive ''big'', ReadFile ''/tmp/big'',
               GenerateVision analysis_prompt ''application/octet-stream'' ''bytes'',
               LogError ''File processing error: '' (Failure ''quota''),
               ReplyText failed_to_analyze],
      raised = None\<rparr> \<and>
   reply_text (answering long_answer) (analysis_result long_answer)
     = Some (Failure ''Message is too long'') \<and>
   raised (files_body (answering long_answer) alice
             \<lparr>photo = [''small'', ''big''], document = None\<rparr> 9 fresh_state)
     = Some (Failure ''Message is too long'') \<and>
   handle_files (answering long_answer) alice \<lparr>photo = [''small'', ''big''], document = None\<rparr>
       9 fresh_state =
     \<lparr>after = fresh_state\<lparr>files :=
                [file_entry (answering long_answer) alice ''/tmp/big'' long_answer 9]\<rparr>,
      trace = [GetFile ''big'', DownloadToDrive ''big'', ReadFile ''/tmp/big'',
               GenerateVision analysis_prompt ''application/octet-stream'' ''bytes'',
               InsertFile (file_entry (answering long_answer) alice ''/tmp/big'' long_answer 9),
               ReplyText (analysis_result long_answer),
               LogError ''File processing error: '' (Failure ''Message is too long''),
               ReplyText failed_to_analyze],
      raised = None\<rparr> \<and>
   selected_file_id \<lparr>photo = [], document = None\<rparr> = None \<and>
   handle_files failing_backend alice \<lparr>photo = [], document = None\<rparr> 9 fresh_state =
     \<lparr>after = fresh_state, trace = [ReplyText unsupported_file_type], raised = None\<rparr> \<and>
   join '' '' ([] :: string list) = [] \<and>
   handle_websearch failing_backend alice [] 9 fresh_state =
     \<lparr>after = fresh_state, trace = [ReplyText usage_text], raised = None\<rparr>"
proof -
  let ?pics = "\<lparr>photo = [''small'', ''big''], document = None\<rparr>"
  let ?none = "\<lparr>photo = [], document = None\<rparr>"
  let ?empty = "Failure ''Message text is empty''"
  let ?long = "Failure ''Message is too long''"
  have sent:
    "reply_text failing_backend sorry_text = None"
    "reply_text failing_backend failed_to_analyze = None"
    "reply_text failing_backend unsupported_file_type = None"
    "reply_text failing_backend usage_text = None"
    "reply_text (answering no_parts) sorry_text = None"
    "reply_text (answering long_answer) failed_to_analyze = None"
    by (simp_all add: failing_backend_def answering_def replies_delivered)
  have b1: "nlp_model failing_backend (message_prompt ''hi'') = Inl (Failure ''quota'')"
    by (simp add: failing_backend_def)
  have n1: "nlp_model (answering no_parts) (message_prompt ''hi'') = Inr no_parts"
    "insert_error (answering no_parts) = None"
    by (simp_all add: answering_def)
  have n2: "reply_text (answering no_parts) (extract_text_from_candidates no_parts) = Some ?empty"
    by (simp add: answering_def telegram_reply_def extract_no_parts)
  have n3: "raised (generate_body (answering no_parts) 42 ''hi'' 9 fresh_state) = Some ?empty"
    by (simp add: generate_body_def Let_def n1 n2)
  have p1: "selected_file_id ?pics = Some ''big''"
    by (simp add: selected_file_id_def)
  have f1: "get_file failing_backend ''big'' = Inr ''big''"
    "download_to_drive failing_backend ''big'' = Inr ''/tmp/big''"
    "read_file failing_backend ''/tmp/big'' = Inr ''bytes''"
    "mime_type_of failing_backend ''/tmp/big'' = ''application/octet-stream''"
    "vision_model failing_backend analysis_prompt ''application/octet-stream'' ''bytes''
       = Inl (Failure ''quota'')"
    by (simp_all add: failing_backend_def mime_type_of_def)
  have l1: "get_file (answering long_answer) ''big'' = Inr ''big''"
    "download_to_drive (answering long_answer) ''big'' = Inr ''/tmp/big''"
    "read_file (answering long_answer) ''/tmp/big'' = Inr ''bytes''"
    "mime_type_of (answering long_answer) ''/tmp/big'' = ''application/octet-stream''"
    "vision_model (answering long_answer) analysis_prompt ''application/octet-stream'' ''bytes''
       = Inr long_answer"
    "insert_error (answering long_answer) = None"
    by (simp_all add: answering_def mime_type_of_def)
  have l2: "reply_text (answering long_answer) (analysis_result long_answer) = Some ?long"
    by (simp add: answering_def reply_long_analysis)
  have l3: "raised (files_body (answering long_answer) alice ?pics 9 fresh_state) = Some ?long"
    by (simp add: files_body_def p1 l1 l2)
  have u1: "selected_file_id ?none = None"
    by (simp add: selected_file_id_def)
  have w1: "join '' '' ([] :: string list) = []"
    by simp
  have fresh: "chat_history fresh_state = []" "files fresh_state = []"
    by (simp_all add: fresh_state_def)
  from failure_paths_log_and_apologise
      [where e = failing_backend and m = "''hi''" and x = "Failure ''quota''" and i = 42
         and now = 9 and s = fresh_state and u = alice and a = ?pics
         and file_id = "''big''" and tg_file = "''big''" and file_path = "''/tmp/big''"
         and file_data = "''bytes''" and args = "[]"]
    b1 p1 f1 w1 sent
  have A: "generate_and_send_response failing_backend 42 ''hi'' 9 fresh_state =
     \<lparr>after = fresh_state,
      trace = [GenerateContent (message_prompt ''hi''),
               LogError ''Error generating response: '' (Failure ''quota''),
               ReplyText sorry_text],
      raised = None\<rparr>"
    and B: "handle_files failing_backend alice ?pics 9 fresh_state =
     \<lparr>after = fresh_state,
      trace = [GetFile ''big'', DownloadToDrive ''big'', ReadFile ''/tmp/big'',
               GenerateVision analysis_prompt ''application/octet-stream'' ''bytes'',
               LogError ''File processing error: '' (Failure ''quota''),
               ReplyText failed_to_analyze],
      raised = None\<rparr>"
    and C: "handle_websearch failing_backend alice [] 9 fresh_state =
     \<lparr>after = fresh_state, trace = [ReplyText usage_text], raised = None\<rparr>"
    by simp_all
  from failure_paths_log_and_apologise
      [where e = "answering no_parts" and m = "''hi''" and x = ?empty and i = 42
         and now = 9 and s = fresh_state and raw = no_parts]
    n1 n2 n3 sent fresh
  have D: "generate_and_send_response (answering no_parts) 42 ''hi'' 9 fresh_state =
     \<lparr>after = fresh_state\<lparr>chat_history := [chat_entry 42 ''hi'' [] 9]\<rparr>,
      trace = [GenerateContent (message_prompt ''hi''),
               InsertChat (chat_entry 42 ''hi'' [] 9),
               ReplyText [],
               LogError ''Error generating response: '' ?empty,
               ReplyText sorry_text],
      raised = None\<rparr>"
    by (simp add: extract_no_parts)
  from failure_paths_log_and_apologise
      [where e = "answering long_answer" and x = ?long and now = 9 and s = fresh_state
         and u = alice and a = ?pics and file_id = "''big''" and tg_file = "''big''"
         and file_path = "''/tmp/big''" and file_data = "''bytes''" and resp = long_answer]
    p1 l1 l2 l3 sent fresh
  have E: "handle_files (answering long_answer) alice ?pics 9 fresh_state =
     \<lparr>after = fresh_state\<lparr>files :=
                [file_entry (answering long_answer) alice ''/tmp/big'' long_answer 9]\<rparr>,
      trace = [GetFile ''big'', DownloadToDrive ''big'', ReadFile ''/tmp/big'',
               GenerateVision analysis_prompt ''application/octet-stream'' ''bytes'',
               InsertFile (file_entry (answering long_answer) alice ''/tmp/big'' long_answer 9),
               ReplyText (analysis_result long_answer),
               LogError ''File processing error: '' ?long,
               ReplyText failed_to_analyze],
      raised = None\<rparr>"
    by simp
  from failure_paths_log_and_apologise
      [where e = failing_backend and now = 9 and s = fresh_state and u = alice and a = ?none]
    u1 sent
  have F: "handle_files failing_backend alice ?none 9 fresh_state =
     \<lparr>after = fresh_state, trace = [ReplyText unsupported_file_type], raised = None\<rparr>"
    by simp
  have n2': "reply_text (answering no_parts) [] = Some ?empty"
    using n2 by (simp add: extract_no_parts)
  from A B C D E F b1 n1(1) extract_no_parts n2' n3 l2 l3 u1 w1
  show ?thesis by simp
qed

text \<open>
  Claim C6, as stated, fails. A text message whose backend result has a first candidate
  with no parts gives an empty reply text; the transport refuses it, the handler logs and
  apologises, and the exchange is already in \<open>chat_history\<close>. A search whose backend
  call fails sends nothing and logs nothing: \<open>handle_websearch\<close> has no \<open>try\<close>, and the
  exception leaves the handler. And the usage message of an empty search and the message
  for an unsupported attachment come with no log line.
\<close>

theorem failure_after_write_and_silent_search:
  "generate_and_send_response (answering no_parts) 42 ''hi'' 9 fresh_state =
     \<lparr>after = fresh_state\<lparr>chat_history := [chat_entry 42 ''hi'' [] 9]\<rparr>,
      trace = [GenerateContent (message_prompt ''hi''),
               InsertChat (chat_entry 42 ''hi'' [] 9),
               ReplyText [],
               LogError ''Error generating response: '' (Failure ''Message text is empty''),
               ReplyText sorry_text],
      raised = None\<rparr> \<and>
   chat_history (after (generate_and_send_response (answering no_parts) 42 ''hi'' 9 fresh_state))
     \<noteq> chat_history fresh_state \<and>
   handle_websearch failing_backend alice [''cats''] 9 fresh_state =
     \<lparr>after = fresh_state,
      trace = [GenerateContent
                 ''Simulate a web search for: cats and provide a concise summary with top links.''],
      raised = Some (Failure ''quota'')\<rparr> \<and>
   \<not> list_ex is_reply
       (trace (handle_websearch failing_backend alice [''cats''] 9 fresh_state)) \<and>
   \<not> list_ex is_log_error
       (trace (handle_websearch failing_backend alice [''cats''] 9 fresh_state)) \<and>
   trace (handle_websearch failing_backend alice [] 9 fresh_state) = [ReplyText usage_text] \<and>
   \<not> list_ex is_log_error (trace (handle_websearch failing_backend alice [] 9 fresh_state)) \<and>
   trace (handle_files failing_backend alice \<lparr>photo = [], document = None\<rparr> 9 fresh_state)
     = [ReplyText unsupported_file_type] \<and>
   \<not> list_ex is_log_error
       (trace (handle_files failing_backend alice \<lparr>photo = [], document = None\<rparr> 9
                 fresh_state))"
proof -
  have "generate_and_send_response (answering no_parts) 42 ''hi'' 9 fresh_state =
     \<lparr>after = fresh_state\<lparr>chat_history := [chat_entry 42 ''hi'' [] 9]\<rparr>,
      trace = [GenerateContent (message_prompt ''hi''),
               InsertChat (chat_entry 42 ''hi'' [] 9),
               ReplyText [],
               LogError ''Error generating response: '' (Failure ''Message text is empty''),
               ReplyText sorry_text],
      raised = None\<rparr>"
  proof -
    have "nlp_model (answering no_parts) (message_prompt ''hi'') = Inr no_parts"
      and "insert_error (answering no_parts) = None"
      and "reply_text (answering no_parts) sorry_text = None"
      by (simp_all add: answering_def replies_delivered)
    moreover have
      "reply_text (answering no_parts) [] = Some (Failure ''Message text is empty'')"
      by (simp add: answering_def telegram_reply_def)
    ultimately show ?thesis
      by (simp add: generate_and_send_response_def generate_body_def catch_def Let_def
          extract_no_parts fresh_state_def)
  qed
  moreover have
    "handle_websearch failing_backend alice [''cats''] 9 fresh_state =
     \<lparr>after = fresh_state,
      trace = [GenerateContent
                 ''Simulate a web search for: cats and provide a concise summary with top links.''],
      raised = Some (Failure ''quota'')\<rparr>"
    by (simp add: handle_websearch_def failing_backend_def web_search_prompt_def)
  moreover have
    "trace (handle_websearch failing_backend alice [] 9 fresh_state) = [ReplyText usage_text]"
    by (simp add: handle_websearch_def)
  moreover have
    "trace (handle_files failing_backend alice \<lparr>photo = [], document = None\<rparr> 9 fresh_state)
       = [ReplyText unsupported_file_type]"
    by (simp add: handle_files_def files_body_def selected_file_id_def catch_def
        failing_backend_def replies_delivered)
  ultimately show ?thesis
    by (simp add: is_reply_def is_log_error_def fresh_state_def)
qed


end
